theory Spec2Isabelle
  imports Complex_Main
begin

section \<open>JavaScript numbers\<close>

text \<open>
  The reconciler and the charge simulation compute with JavaScript numbers. The model
  keeps what the code relies on: the two infinities and NaN (\<open>nstart\<close> and \<open>nstop\<close> of
  \<open>cleanupPlan\<close> produce infinities, \<open>Infinity - Infinity\<close> is NaN, a division by \<open>0\<close>
  is NaN or an infinity), with exact finite values: epoch milliseconds and battery
  levels are integers far below \<open>2^53\<close>, and the rounding of fractions is left out.
  Comparisons with NaN are false, arithmetic with NaN is NaN.
\<close>

datatype 'a jsnum = NaN | NegInf | Num 'a | PosInf

instantiation jsnum :: (linordered_idom) ord
begin

fun less_jsnum :: "'a jsnum \<Rightarrow> 'a jsnum \<Rightarrow> bool" where
  "less_jsnum NaN y = False"
| "less_jsnum x NaN = False"
| "less_jsnum NegInf NegInf = False"
| "less_jsnum NegInf y = True"
| "less_jsnum (Num a) NegInf = False"
| "less_jsnum (Num a) (Num b) = (a < b)"
| "less_jsnum (Num a) PosInf = True"
| "less_jsnum PosInf y = False"

fun less_eq_jsnum :: "'a jsnum \<Rightarrow> 'a jsnum \<Rightarrow> bool" where
  "less_eq_jsnum NaN y = False"
| "less_eq_jsnum x NaN = False"
| "less_eq_jsnum NegInf y = True"
| "less_eq_jsnum (Num a) NegInf = False"
| "less_eq_jsnum (Num a) (Num b) = (a \<le> b)"
| "less_eq_jsnum (Num a) PosInf = True"
| "less_eq_jsnum PosInf PosInf = True"
| "less_eq_jsnum PosInf y = False"

instance ..

end

instantiation jsnum :: (linordered_idom) plus
begin

fun plus_jsnum :: "'a jsnum \<Rightarrow> 'a jsnum \<Rightarrow> 'a jsnum" where
  "plus_jsnum NaN y = NaN"
| "plus_jsnum x NaN = NaN"
| "plus_jsnum NegInf PosInf = NaN"
| "plus_jsnum PosInf NegInf = NaN"
| "plus_jsnum NegInf y = NegInf"
| "plus_jsnum PosInf y = PosInf"
| "plus_jsnum (Num a) NegInf = NegInf"
| "plus_jsnum (Num a) PosInf = PosInf"
| "plus_jsnum (Num a) (Num b) = Num (a + b)"

instance ..

end

instantiation jsnum :: (linordered_idom) minus
begin

fun minus_jsnum :: "'a jsnum \<Rightarrow> 'a jsnum \<Rightarrow> 'a jsnum" where
  "minus_jsnum NaN y = NaN"
| "minus_jsnum x NaN = NaN"
| "minus_jsnum NegInf NegInf = NaN"
| "minus_jsnum PosInf PosInf = NaN"
| "minus_jsnum NegInf y = NegInf"
| "minus_jsnum PosInf y = PosInf"
| "minus_jsnum (Num a) NegInf = PosInf"
| "minus_jsnum (Num a) PosInf = NegInf"
| "minus_jsnum (Num a) (Num b) = Num (a - b)"

instance ..

end

instantiation jsnum :: (linordered_idom) times
begin

fun times_jsnum :: "'a jsnum \<Rightarrow> 'a jsnum \<Rightarrow> 'a jsnum" where
  "times_jsnum NaN y = NaN"
| "times_jsnum x NaN = NaN"
| "times_jsnum (Num a) (Num b) = Num (a * b)"
| "times_jsnum (Num a) PosInf = (if a = 0 then NaN else if 0 < a then PosInf else NegInf)"
| "times_jsnum (Num a) NegInf = (if a = 0 then NaN else if 0 < a then NegInf else PosInf)"
| "times_jsnum PosInf (Num b) = (if b = 0 then NaN else if 0 < b then PosInf else NegInf)"
| "times_jsnum NegInf (Num b) = (if b = 0 then NaN else if 0 < b then NegInf else PosInf)"
| "times_jsnum PosInf PosInf = PosInf"
| "times_jsnum PosInf NegInf = NegInf"
| "times_jsnum NegInf PosInf = NegInf"
| "times_jsnum NegInf NegInf = PosInf"

instance ..

end

text \<open>
  Division: a finite quotient is exact; \<open>0 / 0\<close> is NaN and \<open>x / 0\<close> an infinity with the
  sign of \<open>x\<close> (the model has no negative zero).
\<close>

fun js_div :: "('a::linordered_field) jsnum \<Rightarrow> 'a jsnum \<Rightarrow> 'a jsnum" where
  "js_div NaN y = NaN"
| "js_div x NaN = NaN"
| "js_div (Num a) (Num b) =
     (if b = 0 then (if a = 0 then NaN else if 0 < a then PosInf else NegInf)
      else Num (a / b))"
| "js_div (Num a) y = Num 0"
| "js_div PosInf (Num b) = (if 0 \<le> b then PosInf else NegInf)"
| "js_div NegInf (Num b) = (if 0 \<le> b then NegInf else PosInf)"
| "js_div x y = NaN"

text \<open>\<open>Math.min\<close> and \<open>Math.max\<close>: NaN if an argument is NaN.\<close>

fun Math_min :: "('a::linordered_idom) jsnum \<Rightarrow> 'a jsnum \<Rightarrow> 'a jsnum" where
  "Math_min NaN y = NaN"
| "Math_min x NaN = NaN"
| "Math_min x y = (if x \<le> y then x else y)"

fun Math_max :: "('a::linordered_idom) jsnum \<Rightarrow> 'a jsnum \<Rightarrow> 'a jsnum" where
  "Math_max NaN y = NaN"
| "Math_max x NaN = NaN"
| "Math_max x y = (if x \<le> y then y else x)"

text \<open>A number is falsy when it is \<open>0\<close> or NaN; \<open>x || y\<close> is \<open>x\<close> when \<open>x\<close> is truthy.\<close>

fun truthy :: "('a::linordered_idom) jsnum \<Rightarrow> bool" where
  "truthy NaN = False"
| "truthy (Num a) = (a \<noteq> 0)"
| "truthy x = True"

definition js_or :: "('a::linordered_idom) jsnum \<Rightarrow> 'a jsnum \<Rightarrow> 'a jsnum" where
  "js_or x y = (if truthy x then x else y)"

section \<open>Charge plans\<close>

text \<open>
  \<open>ChargeType\<close> and \<open>ChargePlan\<close> of \<open>gql/vehicle-type\<close>. A \<open>Date | null\<close> is an
  \<open>int option\<close>: \<open>Some t\<close> is the date with \<open>getTime() = t\<close> (epoch milliseconds).
\<close>

datatype ChargeType = calibrate | minimum | trip | routine | prefered | fill

record ChargePlan =
  chargeType :: ChargeType
  chargeStart :: "int option"
  chargeStop :: "int option"
  level :: int
  comment :: string

section \<open>\<open>Logic.cleanupPlan\<close>\<close>

text \<open>
  \<open>(n && n.getTime()) || -Infinity\<close>: a null date and a date whose time is \<open>0\<close> (falsy)
  both read as the infinity.
\<close>

fun nstart :: "int option \<Rightarrow> int jsnum" where
  "nstart None = NegInf"
| "nstart (Some t) = (if t = 0 then NegInf else Num t)"

fun nstop :: "int option \<Rightarrow> int jsnum" where
  "nstop None = PosInf"
| "nstop (Some t) = (if t = 0 then PosInf else Num t)"

fun chargePrio :: "ChargeType \<Rightarrow> int" where
  "chargePrio calibrate = 0"
| "chargePrio minimum = 1"
| "chargePrio trip = 2"
| "chargePrio routine = 3"
| "chargePrio prefered = 4"
| "chargePrio fill = 5"

text \<open>The comparator handed to \<open>plan.sort\<close>.\<close>

definition plan_compare :: "ChargePlan \<Rightarrow> ChargePlan \<Rightarrow> int jsnum" where
  "plan_compare a b =
     js_or (nstart (chargeStart a) - nstart (chargeStart b))
       (js_or (nstop (chargeStop b) - nstop (chargeStop a))
          (Num (chargePrio (chargeType a) - chargePrio (chargeType b))))"

text \<open>
  \<open>Array.prototype.sort\<close> with a comparator is a stable sort: an element moves behind
  another only when the comparator is positive. It is modelled as insertion sort.
\<close>

fun insort_by ::
  "('a \<Rightarrow> 'a \<Rightarrow> ('b::linordered_idom) jsnum) \<Rightarrow> 'a \<Rightarrow> 'a list \<Rightarrow> 'a list" where
  "insort_by c x [] = [x]"
| "insort_by c x (y # ys) =
     (if Num 0 < c x y then y # insort_by c x ys else x # y # ys)"

definition Array_sort ::
  "('a \<Rightarrow> 'a \<Rightarrow> ('b::linordered_idom) jsnum) \<Rightarrow> 'a list \<Rightarrow> 'a list" where
  "Array_sort c xs = foldr (insort_by c) xs []"

text \<open>
  \<open>consolidate\<close>: the loop looks at \<open>a = plan[i]\<close> and \<open>b = plan[i + 1]\<close> and never
  returns to an index below \<open>i\<close>, so the recursion runs on the list from index \<open>i\<close> on.
  A merge removes \<open>b\<close> and stays at \<open>i\<close> (\<open>--i\<close> followed by the loop's \<open>++i\<close>);
  the other branches move on to \<open>i + 1\<close>.
\<close>

fun consolidate :: "ChargePlan list \<Rightarrow> ChargePlan list" where
  "consolidate (a # b # rest) =
     (if nstart (chargeStart b) \<le> nstop (chargeStop a) then
        (if chargeType a = chargeType b \<or> nstop (chargeStop b) \<le> nstop (chargeStop a) then
           consolidate
             (a\<lparr>chargeStop :=
                   (if nstop (chargeStop a) < nstop (chargeStop b) then chargeStop b
                    else chargeStop a),
                 level := max (level a) (level b)\<rparr> # rest)
         else if level b \<le> level a then
           a # consolidate (b\<lparr>chargeStart := chargeStop a\<rparr> # rest)
         else
           a\<lparr>chargeStop := chargeStart b\<rparr> # consolidate (b # rest))
      else a # consolidate (b # rest))"
| "consolidate plan = plan"

text \<open>
  \<open>new Date(x)\<close> for the shifted start. A non-finite \<open>x\<close>, or one beyond \<open>8.64e15\<close>
  milliseconds, would give an invalid date, which \<open>nstart\<close> and \<open>nstop\<close> read like
  null (its time is NaN, which is falsy).
\<close>

fun new_Date :: "int jsnum \<Rightarrow> int option" where
  "new_Date (Num t) = (if 8640000000000000 < \<bar>t\<bar> then None else Some t)"
| "new_Date x = None"

definition shift_of :: "ChargePlan \<Rightarrow> ChargePlan \<Rightarrow> int jsnum" where
  "shift_of a b =
     Math_min (nstart (chargeStart b) - nstop (chargeStop a))
       (nstart (chargeStart a) - nstop (chargeStop a) + Num 3600000)"

definition shifts :: "ChargePlan \<Rightarrow> ChargePlan \<Rightarrow> bool" where
  "shifts a b \<longleftrightarrow>
     Num 0 < shift_of a b \<and> nstart (chargeStart b) \<le> nstop (chargeStop a) + shift_of a b"

text \<open>
  The second pass. Only \<open>a = plan[i]\<close> is written, so \<open>b\<close> is still the input's segment
  when the loop reaches it. The result carries the flag \<open>shifted\<close>.
\<close>

fun shift_pass :: "ChargePlan list \<Rightarrow> ChargePlan list \<times> bool" where
  "shift_pass (a # b # rest) =
     (let (plan, shifted) = shift_pass (b # rest) in
      if shifts a b then
        (a\<lparr>chargeStop := chargeStart b,
           chargeStart := new_Date (nstart (chargeStart a) + shift_of a b)\<rparr> # plan, True)
      else (a # plan, shifted))"
| "shift_pass plan = (plan, False)"

definition cleanupPlan :: "ChargePlan list \<Rightarrow> ChargePlan list" where
  "cleanupPlan plan =
     (let plan1 = consolidate (Array_sort plan_compare plan);
          (plan2, shifted) = shift_pass plan1
      in if shifted then consolidate plan2 else plan2)"

section \<open>Charge durations\<close>

text \<open>
  \<open>Math.round\<close> rounds half up; \<open>new Date(x)\<close> drops the fraction of \<open>x\<close> towards zero and
  is an invalid date (read as null, see \<open>new_Date\<close>) beyond \<open>8.64e15\<close> milliseconds.
\<close>

definition Math_round :: "rat \<Rightarrow> int" where
  "Math_round x = \<lfloor>x + 1 / 2\<rfloor>"

definition Date_of :: "rat \<Rightarrow> int option" where
  "Date_of x =
     (if 8640000000000000 < \<bar>x\<bar> then None
      else Some (if 0 \<le> x then \<lfloor>x\<rfloor> else \<lceil>x\<rceil>))"

text \<open>
  Modelled from the spec: \<open>getChargeCurve\<close> of the persistence gateway
  (\<open>db-interface\<close> is not among the sources). \<open>curve[l]\<close> is the stored duration, in
  seconds, of the charge curve row for level \<open>l\<close>, and \<open>100\<close> when there is no row.
\<close>

definition getChargeCurve :: "(int \<rightharpoonup> rat) \<Rightarrow> int \<Rightarrow> rat" where
  "getChargeCurve stored l = (case stored l of Some d \<Rightarrow> d | None \<Rightarrow> 100)"

text \<open>
  \<open>Logic.chargeDuration\<close>, for the charge curve of the vehicle at the location. Levels are
  integers (the vehicle's \<open>level\<close>, \<open>minimum_charge\<close> and \<open>maximum_charge\<close>, a trip's
  \<open>level\<close>, and \<open>Math.round\<close> results), so \<open>Math.ceil(level)\<close> is \<open>level\<close>. The loop
  \<open>for (let level = from; level <= to; ++level)\<close> carries \<open>sum\<close> as \<open>acc\<close>.
\<close>

function chargeDuration_loop :: "(int \<Rightarrow> rat) \<Rightarrow> int \<Rightarrow> int \<Rightarrow> rat \<Rightarrow> rat" where
  "chargeDuration_loop chargeCurve to lvl acc =
     (if lvl \<le> to then
        chargeDuration_loop chargeCurve to (lvl + 1)
          (acc + chargeCurve (min 100 lvl) * (if lvl < to then 1 else 3 / 4))
      else acc)"
  by pat_completeness auto
termination
  by (relation "measure (\<lambda>(chargeCurve, to, lvl, acc). nat (to + 1 - lvl))") auto

declare chargeDuration_loop.simps [simp del]

definition chargeDuration :: "(int \<Rightarrow> rat) \<Rightarrow> int \<Rightarrow> int \<Rightarrow> rat" where
  "chargeDuration chargeCurve from to = chargeDuration_loop chargeCurve to from 0 * 1000"

text \<open>
  The sum as the specification words it: \<open>curve[l]\<close> for every level \<open>l = from..to\<close>,
  the last one weighted \<open>0.75\<close>, in milliseconds.
\<close>

definition chargeDuration_spec :: "(int \<Rightarrow> rat) \<Rightarrow> int \<Rightarrow> int \<Rightarrow> rat" where
  "chargeDuration_spec curve from to =
     (\<Sum>l = from..to. curve l * (if l < to then 1 else 3 / 4)) * 1000"

section \<open>The planner\<close>

record Schedule =
  level :: int
  time :: int

record DBCurrentStats =
  stats_id :: int
  vehicle_uuid :: string
  location_uuid :: string
  price_list_ts :: "int option"
  level_charge_time :: int
  weekly_avg7_price :: int
  weekly_avg21_price :: int
  threshold :: int

text \<open>
  The status texts built from a template, by the values they print: the emergency text
  (\<open>connected\<close>, \<open>minimum_charge\<close>, \<open>timeNeeded\<close>), the prediction text (\<open>minimumLevel\<close>,
  \<open>neededCharge\<close>, \<open>before\<close>) and the trip text (\<open>connected\<close>, \<open>prepareLevel\<close>,
  \<open>departLevel\<close>, \<open>topupTime\<close>).
\<close>

datatype status_template =
    Emergency_status bool int rat
  | Predicting_status int int rat
  | Trip_status bool int int rat

record DBVehicle =
  vehicle_uuid :: string
  location_uuid :: "string option"
  level :: int
  minimum_charge :: int
  maximum_charge :: int
  anxiety_level :: int
  scheduled_trip :: "Schedule option"
  connected :: bool
  trip_id :: "int option"
  charge_plan :: "ChargePlan list option"
  smart_status :: string

text \<open>
  What the planner reads besides the vehicle row: the clock, the charge curve of the
  vehicle at its location, the price list of the location (\<open>ts\<close>, \<open>price\<close>), the
  \<open>MAX(level)\<close> of the charge curve rows, the row returned by \<open>currentStats\<close>, and the
  \<open>charge\<close> and \<open>before\<close> columns of the disconnect prediction query. \<open>render\<close> is the
  text of a status template (\<open>prettyTime\<close> of \<open>@shared/utils\<close> and \<open>toISOString\<close> print
  the values).
\<close>

record planner_env =
  now :: int
  chargeCurve :: "int \<Rightarrow> rat"
  price_list :: "(int \<times> rat) list"
  max_level :: "int option"
  stats :: "DBCurrentStats option"
  guess_charge :: "rat option"
  guess_before :: "rat option"
  render :: "status_template \<Rightarrow> string"

text \<open>
  \<open>Logic.generateChargePlan\<close>. The price query returns the points of the location's price
  list with \<open>ts >= NOW() - interval '1 hour'\<close> and \<open>ts < new Date(before)\<close>, cheapest
  first; \<open>NOW()\<close> and \<open>Date.now()\<close> are the one clock \<open>now\<close> of the environment. The
  parameter and local \<open>before\<close> is written \<open>before_ts\<close>; \<open>before || 10e13\<close> is \<open>before1\<close>.
  The two assertions on \<open>vehicle.location_uuid\<close> hold at every call, since the planner
  returns early for a vehicle at an unknown location.
\<close>

definition trunc_ms :: "rat \<Rightarrow> int" where
  "trunc_ms x = (if 0 \<le> x then \<lfloor>x\<rfloor> else \<lceil>x\<rceil>)"

definition price_query :: "planner_env \<Rightarrow> rat \<Rightarrow> (int \<times> rat) list" where
  "price_query env before_ts =
     sort_key snd
       (filter (\<lambda>(ts, price). now env - 3600000 \<le> ts \<and> ts < trunc_ms before_ts)
          (price_list env))"

text \<open>
  The loop \<open>for (const price of priceMap)\<close>, carrying \<open>timeLeft\<close>. \<open>maxPrice && \<dots>\<close> is
  falsy for an absent \<open>maxPrice\<close> and for \<open>0\<close>.
\<close>

fun price_loop ::
  "planner_env \<Rightarrow> rat \<Rightarrow> rat option \<Rightarrow> int \<Rightarrow> ChargeType \<Rightarrow> string \<Rightarrow> rat \<Rightarrow>
     (int \<times> rat) list \<Rightarrow> ChargePlan list" where
  "price_loop env before_ts maxPrice batteryLevel ty cmt timeLeft [] = []"
| "price_loop env before_ts maxPrice batteryLevel ty cmt timeLeft ((ts, price) # priceMap) =
     (if timeLeft \<le> 0 then []
      else if (case maxPrice of None \<Rightarrow> False | Some m \<Rightarrow> m \<noteq> 0 \<and> m < price) then []
      else
        (let start = (if ts < now env then now env else ts);
             fullHour = ts + 3600000;
             stop = min (min (of_int start + timeLeft) before_ts) (of_int fullHour)
         in \<lparr>chargeType = ty,
              chargeStart = (if ts < start then Some ts else Some start),
              chargeStop = Date_of stop,
              level = batteryLevel,
              comment = cmt\<rparr>
            # price_loop env before_ts maxPrice batteryLevel ty cmt
                (timeLeft - (stop - of_int start)) priceMap))"

definition generateChargePlan ::
  "planner_env \<Rightarrow> DBVehicle \<Rightarrow> int \<Rightarrow> ChargeType \<Rightarrow> string \<Rightarrow> rat option \<Rightarrow> rat option \<Rightarrow>
     ChargePlan list" where
  "generateChargePlan env vehicle batteryLevel ty cmt before_ts maxPrice =
     (let timeNeeded = chargeDuration (chargeCurve env) (DBVehicle.level vehicle) batteryLevel;
          before1 = (case before_ts of None \<Rightarrow> 100000000000000
                     | Some b \<Rightarrow> if b = 0 then 100000000000000 else b)
      in if 0 < timeNeeded then
           (let priceMap = price_query env before1
            in if priceMap \<noteq> [] then
                 price_loop env before1 maxPrice batteryLevel ty cmt timeNeeded priceMap
               else
                 [\<lparr>chargeType = routine,
                   chargeStart = None,
                   chargeStop = Date_of (of_int (now env) + timeNeeded),
                   level = batteryLevel,
                   comment = cmt\<rparr>])
         else [])"

text \<open>
  \<open>Logic.refreshVehicleChargePlan\<close>. The locals \<open>plan\<close> and \<open>disconnectTime\<close>, the
  \<open>smart_status\<close> column as the calls of \<open>setSmartStatus\<close> leave it, and whether
  \<open>scheduled_trip\<close> was set to null, are threaded through the blocks of the function in
  source order.
\<close>

record planning =
  p_plan :: "ChargePlan list"
  p_status :: string
  p_disconnectTime :: rat
  p_clear_trip :: bool

text \<open>\<open>setSmartStatus\<close> writes only a text that differs from the one of the row read.\<close>

definition setSmartStatus :: "DBVehicle \<Rightarrow> string \<Rightarrow> planning \<Rightarrow> planning" where
  "setSmartStatus vehicle status pl =
     (if smart_status vehicle \<noteq> status then pl\<lparr>p_status := status\<rparr> else pl)"

definition ChargePlanToJS :: "ChargePlan \<Rightarrow> ChargePlan" where
  "ChargePlanToJS input =
     \<lparr>chargeType = chargeType input,
      chargeStart = chargeStart input,
      chargeStop = chargeStop input,
      level = ChargePlan.level input,
      comment = comment input\<rparr>"

text \<open>The seed: the stored segments that start now, kept while the level is low.\<close>

definition seedPlan :: "DBVehicle \<Rightarrow> ChargePlan list" where
  "seedPlan vehicle =
     (case charge_plan vehicle of
        Some cp \<Rightarrow>
          map ChargePlanToJS
            (filter (\<lambda>f. chargeStart f = None \<and>
                          DBVehicle.level vehicle < minimum_charge vehicle + 1) cp)
      | None \<Rightarrow> [])"

text \<open>\<open>vehicle.level < vehicle.maximum_charge && (maxLevel || 0) < 100\<close>\<close>

definition calibration_needed :: "planner_env \<Rightarrow> DBVehicle \<Rightarrow> bool" where
  "calibration_needed env vehicle \<longleftrightarrow>
     DBVehicle.level vehicle < maximum_charge vehicle \<and>
     (case max_level env of None \<Rightarrow> 0 | Some m \<Rightarrow> m) < 100"

definition calibration_segment :: ChargePlan where
  "calibration_segment =
     \<lparr>chargeType = calibrate, chargeStart = None, chargeStop = None, level = 100,
      comment = ''Charge calibration''\<rparr>"

definition calibration_block :: "DBVehicle \<Rightarrow> planning \<Rightarrow> planning" where
  "calibration_block vehicle pl =
     setSmartStatus vehicle ''Charge calibration needed at current location''
       (pl\<lparr>p_plan := [calibration_segment]\<rparr>)"

definition emergency_segment :: "planner_env \<Rightarrow> DBVehicle \<Rightarrow> ChargePlan" where
  "emergency_segment env vehicle =
     \<lparr>chargeType = minimum,
      chargeStart = None,
      chargeStop =
        Date_of (of_int (now env) +
          chargeDuration (chargeCurve env) (DBVehicle.level vehicle) (minimum_charge vehicle)),
      level = minimum_charge vehicle,
      comment = ''emergency charge''\<rparr>"

text \<open>The block \<open>if (vehicle.level < vehicle.minimum_charge)\<close>: it assigns \<open>plan\<close>.\<close>

definition emergency_block :: "planner_env \<Rightarrow> DBVehicle \<Rightarrow> planning \<Rightarrow> planning" where
  "emergency_block env vehicle pl =
     (if DBVehicle.level vehicle < minimum_charge vehicle then
        setSmartStatus vehicle
          (render env
             (Emergency_status (connected vehicle) (minimum_charge vehicle)
                (chargeDuration (chargeCurve env) (DBVehicle.level vehicle)
                   (minimum_charge vehicle))))
          (pl\<lparr>p_plan := [emergency_segment env vehicle]\<rparr>)
      else pl)"

definition learning_segment :: "DBVehicle \<Rightarrow> ChargePlan" where
  "learning_segment vehicle =
     \<lparr>chargeType = fill, chargeStart = None, chargeStop = None,
      level = maximum_charge vehicle, comment = ''learning''\<rparr>"

text \<open>The block \<open>if (learning)\<close>.\<close>

definition learning_block :: "DBVehicle \<Rightarrow> planning \<Rightarrow> planning" where
  "learning_block vehicle pl =
     setSmartStatus vehicle ''Smart charging disabled (still learning)''
       (pl\<lparr>p_plan := p_plan pl @ [learning_segment vehicle]\<rparr>)"

text \<open>
  Routine and preferred charging from a prediction with \<open>charge\<close> and \<open>before\<close> (the
  branch in which both are truthy).
\<close>

definition routine_block ::
  "planner_env \<Rightarrow> DBVehicle \<Rightarrow> rat \<Rightarrow> rat \<Rightarrow> planning \<Rightarrow> planning" where
  "routine_block env vehicle charge guessed pl =
     (let minimumLevel =
            min (maximum_charge vehicle)
              (Math_round (of_int (minimum_charge vehicle) + charge + 5));
          neededCharge = minimumLevel - DBVehicle.level vehicle;
          before_ts = guessed * 1000;
          pl1 = setSmartStatus vehicle
                  (render env (Predicting_status minimumLevel neededCharge before_ts))
                  (pl\<lparr>p_disconnectTime := before_ts\<rparr>);
          pl2 = pl1\<lparr>p_plan := p_plan pl1 @
                  generateChargePlan env vehicle minimumLevel routine ''routine charge''
                    (Some before_ts) None\<rparr>
      in if anxiety_level vehicle \<noteq> 0 then
           (let anxietyLevel =
                  (if 1 < anxiety_level vehicle then maximum_charge vehicle
                   else Math_round (of_int minimumLevel +
                          of_int (maximum_charge vehicle - minimumLevel) / 2))
            in pl2\<lparr>p_plan := p_plan pl2 @
                  generateChargePlan env vehicle anxietyLevel prefered ''charge setting''
                    (Some before_ts) None\<rparr>)
         else pl2)"

text \<open>
  The block \<open>if (vehicle.level <= vehicle.maximum_charge)\<close>. A number of a row is falsy
  when it is null or \<open>0\<close>.
\<close>

definition smart_block :: "planner_env \<Rightarrow> DBVehicle \<Rightarrow> planning \<Rightarrow> planning" where
  "smart_block env vehicle pl =
     (if DBVehicle.level vehicle \<le> maximum_charge vehicle then
        (if (case stats env of None \<Rightarrow> True | Some st \<Rightarrow> level_charge_time st = 0) then
           learning_block vehicle pl
         else
           (case (guess_before env, guess_charge env) of
              (Some before_ts, Some charge) \<Rightarrow>
                if before_ts = 0 \<or> charge = 0 then learning_block vehicle pl
                else routine_block env vehicle charge before_ts pl
            | _ \<Rightarrow> learning_block vehicle pl))
      else pl)"

text \<open>
  The block \<open>if (vehicle.scheduled_trip)\<close>; \<open>TRIP_TOPUP_MARGIN\<close> is \<open>15 * 60e3\<close>.
\<close>

definition trip_block :: "planner_env \<Rightarrow> DBVehicle \<Rightarrow> planning \<Rightarrow> planning" where
  "trip_block env vehicle pl =
     (case scheduled_trip vehicle of
        None \<Rightarrow> pl
      | Some trp \<Rightarrow>
          if time trp + 3600000 < now env then pl\<lparr>p_clear_trip := True\<rparr>
          else if time trp - 36 * 3600000 < now env then
            (let departLevel = Schedule.level trp;
                 prepareLevel =
                   max (DBVehicle.level vehicle) (min departLevel (maximum_charge vehicle));
                 topupTime =
                   (if prepareLevel < departLevel then
                      chargeDuration (chargeCurve env) prepareLevel departLevel
                    else 0);
                 topupStart = of_int (time trp) - 900000 - topupTime;
                 pl1 = pl\<lparr>p_disconnectTime := max (p_disconnectTime pl) topupStart\<rparr>;
                 pl2 = pl1\<lparr>p_plan := p_plan pl1 @
                         generateChargePlan env vehicle prepareLevel trip ''upcoming trip''
                           (Some topupStart) None\<rparr>
             in if 0 < topupTime then
                  (let pl3 = pl2\<lparr>p_plan := p_plan pl2 @
                               [\<lparr>chargeType = trip,
                                 chargeStart = Date_of topupStart,
                                 chargeStop = None,
                                 level = departLevel,
                                 comment = ''topping up before trip''\<rparr>]\<rparr>
                   in if topupStart \<le> of_int (now env) then
                        setSmartStatus vehicle
                          (render env
                             (Trip_status (connected vehicle) prepareLevel departLevel topupTime))
                          pl3
                      else pl3)
                else pl2)
          else pl)"

text \<open>The block \<open>if (stats)\<close>: the low price fill.\<close>

definition thresholdPrice :: "DBCurrentStats \<Rightarrow> rat" where
  "thresholdPrice st =
     (let averagePrice =
            of_int (weekly_avg7_price st) +
            of_int (weekly_avg7_price st - weekly_avg21_price st) / 2
      in averagePrice * of_int (threshold st) / 100)"

definition fill_block :: "planner_env \<Rightarrow> DBVehicle \<Rightarrow> planning \<Rightarrow> planning" where
  "fill_block env vehicle pl =
     (case stats env of
        None \<Rightarrow> pl
      | Some st \<Rightarrow>
          pl\<lparr>p_plan := p_plan pl @
               generateChargePlan env vehicle (maximum_charge vehicle) fill ''low price''
                 (Some (p_disconnectTime pl)) (Some (thresholdPrice st))\<rparr>)"

text \<open>
  The function up to and without its last step: \<open>p_plan\<close> is the list handed to
  \<open>cleanupPlan\<close>. The vehicle is at a known location here.
\<close>

definition accumulate :: "planner_env \<Rightarrow> DBVehicle \<Rightarrow> planning" where
  "accumulate env vehicle =
     (let pl = \<lparr>p_plan = seedPlan vehicle, p_status = smart_status vehicle,
                p_disconnectTime = 0, p_clear_trip = False\<rparr>
      in if calibration_needed env vehicle then calibration_block vehicle pl
         else fill_block env vehicle
                (trip_block env vehicle
                   (smart_block env vehicle (emergency_block env vehicle pl))))"

text \<open>
  The whole function gives the vehicle row as it is written: at an unknown location only
  the status is cleared; otherwise the reconciled plan, or null for an empty plan, is
  stored in \<open>charge_plan\<close>.
\<close>

definition refreshVehicleChargePlan :: "planner_env \<Rightarrow> DBVehicle \<Rightarrow> DBVehicle" where
  "refreshVehicleChargePlan env vehicle =
     (if DBVehicle.location_uuid vehicle = None then
        vehicle\<lparr>smart_status := []\<rparr>
      else
        (let pl = accumulate env vehicle;
             plan = (if p_plan pl \<noteq> [] then cleanupPlan (p_plan pl) else p_plan pl)
         in vehicle\<lparr>charge_plan := (if plan \<noteq> [] then Some plan else None),
                    smart_status := p_status pl,
                    scheduled_trip :=
                      (if p_clear_trip pl then None else scheduled_trip vehicle)\<rparr>))"

section \<open>The statistics engine\<close>

text \<open>
  The rows of the history query of \<open>createNewStats\<close> and the \<open>HistoryHour\<close> and
  \<open>HistoryMap\<close> built from them. \<open>needed\<close> is null for a connection with no later one;
  null reads as \<open>0\<close> in arithmetic.
\<close>

record history_row =
  connected_id :: int
  location_uuid :: string
  start_level :: int
  end_level :: int
  needed :: "int option"
  hour :: int
  fraction :: rat
  price :: rat
  threshold :: rat

record HistoryHour =
  hour :: int
  fraction :: rat
  price :: rat
  threshold :: rat

record HistoryMap =
  connected_id :: int
  start_level :: int
  needed :: "int option"
  offsite :: bool
  hours :: "HistoryHour list"

text \<open>
  What \<open>createNewStats\<close> and \<open>currentStats\<close> read for one vehicle and location: the
  median \<open>seconds\<close> of the charge curve rows, the \<open>ts\<close> column of the location's price
  list, the two price averages, the history rows, and the vehicle's \<open>charge_levels\<close>.
\<close>

record stats_env =
  level_charge_time :: "rat option"
  price_ts :: "int list"
  avg7 :: "rat option"
  avg21 :: "rat option"
  history :: "history_row list"
  minimum_charge :: int
  maximum_charge :: int

text \<open>The table \<open>current_stats\<close> and the sequence of its key \<open>stats_id\<close>.\<close>

record stats_db =
  current_stats :: "DBCurrentStats list"
  stats_id_seq :: int

definition num_of_null :: "int option \<Rightarrow> rat jsnum" where
  "num_of_null x = (case x of None \<Rightarrow> Num 0 | Some n \<Rightarrow> Num (of_int n))"

definition num_of_null_rat :: "rat option \<Rightarrow> rat jsnum" where
  "num_of_null_rat x = (case x of None \<Rightarrow> Num 0 | Some r \<Rightarrow> Num r)"

text \<open>The loop \<open>for (const h of history)\<close> that groups the rows by connection.\<close>

fun group_history :: "string \<Rightarrow> HistoryMap list \<Rightarrow> history_row list \<Rightarrow> HistoryMap list" where
  "group_history loc historyMap [] = historyMap"
| "group_history loc historyMap (h # rows) =
     (let historyMap1 =
            (if length historyMap < 1 \<or>
                HistoryMap.connected_id (last historyMap) \<noteq> history_row.connected_id h
             then historyMap @
                    [\<lparr>connected_id = history_row.connected_id h,
                      start_level = history_row.start_level h,
                      needed = history_row.needed h,
                      offsite = (history_row.location_uuid h \<noteq> loc),
                      hours = []\<rparr>]
             else historyMap);
          historyMap2 =
            (if history_row.location_uuid h = loc then
               butlast historyMap1 @
                 [(last historyMap1)\<lparr>hours := hours (last historyMap1) @
                     [\<lparr>hour = history_row.hour h,
                       fraction = history_row.fraction h,
                       price = history_row.price h,
                       threshold = history_row.threshold h\<rparr>]\<rparr>]
             else historyMap1)
      in group_history loc historyMap2 rows)"

text \<open>
  \<open>thresholdList\<close>: the thresholds of all hours (\<open>reduce\<close> puts those of a later
  connection first), the first occurrence of each (\<open>a.indexOf(v) === i\<close>), ascending.
\<close>

fun first_occurrences :: "'a list \<Rightarrow> 'a list \<Rightarrow> 'a list" where
  "first_occurrences seen [] = []"
| "first_occurrences seen (v # a) =
     (if v \<in> set seen then first_occurrences seen a
      else v # first_occurrences (v # seen) a)"

definition thresholdList :: "HistoryMap list \<Rightarrow> rat list" where
  "thresholdList historyMap =
     Array_sort (\<lambda>a b. Num (a - b))
       (first_occurrences []
          (foldl (\<lambda>p c. map HistoryHour.threshold (hours c) @ p) [] historyMap))"

text \<open>
  The charge simulation for one candidate threshold \<open>t\<close>. Its numbers are JavaScript
  numbers: a null \<open>level_charge_time\<close> reads as \<open>0\<close> and divides to NaN or an infinity.
\<close>

record sim =
  totalCharged :: "rat jsnum"
  totalCost :: "rat jsnum"
  lvl :: "rat jsnum"

definition neededLevel_of :: "stats_env \<Rightarrow> HistoryMap \<Rightarrow> rat jsnum" where
  "neededLevel_of env c =
     Math_min (Num (of_int (maximum_charge env)))
       (Math_max (Num (of_int (minimum_charge env)))
          (Num (of_int (minimum_charge env)) + num_of_null (needed c) * Num (11 / 10)))"

text \<open>One hour \<open>h\<close> taken from \<open>hours\<close>: the body of the \<open>while\<close> loop after \<open>shift()\<close>.\<close>

definition charge_hour :: "stats_env \<Rightarrow> rat \<Rightarrow> rat jsnum \<Rightarrow> HistoryHour \<Rightarrow> sim \<Rightarrow> sim" where
  "charge_hour env t neededLevel h s =
     (let charge =
            (if HistoryHour.threshold h \<le> t then Num (of_int (maximum_charge env)) - lvl s
             else if lvl s < neededLevel then neededLevel - lvl s
             else Num 0)
      in if Num 0 < charge then
           (let chargeTime =
                  Math_min (Num (3600 * HistoryHour.fraction h))
                    (charge * num_of_null_rat (level_charge_time env));
                newLevel =
                  Math_min (Num (of_int (maximum_charge env)))
                    (lvl s + js_div chargeTime (num_of_null_rat (level_charge_time env)))
            in \<lparr>totalCharged = totalCharged s + (newLevel - lvl s),
                 totalCost = totalCost s + js_div chargeTime (Num 3600) * Num (HistoryHour.price h),
                 lvl = newLevel\<rparr>)
         else s)"

lemma length_insort_by: "length (insort_by c x ys) = Suc (length ys)"
  by (induction ys) simp_all

lemma length_Array_sort: "length (Array_sort c xs) = length xs"
  unfolding Array_sort_def by (induction xs) (simp_all add: length_insort_by)

text \<open>
  The loop \<open>while (hours.length > 0)\<close>: once the level has reached \<open>minimum_charge\<close> the
  remaining hours are sorted by threshold, one time (\<open>smartCharging\<close>).
\<close>

function charge_hours ::
  "stats_env \<Rightarrow> rat \<Rightarrow> rat jsnum \<Rightarrow> bool \<Rightarrow> HistoryHour list \<Rightarrow> sim \<Rightarrow> sim" where
  "charge_hours env t neededLevel smartCharging hrs s =
     (if hrs = [] then s
      else
        (let sorting = (Num (of_int (minimum_charge env)) \<le> lvl s \<and> \<not> smartCharging);
             hrs1 =
               (if sorting then
                  Array_sort (\<lambda>a b. Num (HistoryHour.threshold a - HistoryHour.threshold b)) hrs
                else hrs)
         in charge_hours env t neededLevel (smartCharging \<or> sorting) (tl hrs1)
              (charge_hour env t neededLevel (hd hrs1) s)))"
  by pat_completeness auto
termination
  by (relation "measure (\<lambda>(env, t, neededLevel, smartCharging, hrs, s). length hrs)")
    (auto simp: length_Array_sort)

declare charge_hours.simps [simp del]

text \<open>
  The body of the loop \<open>for (let i = 0; i < historyMap.length; ++i)\<close> for the entry at
  index \<open>i\<close>: \<open>None\<close> is the \<open>break\<close>, \<open>Some\<close> the state with which the loop goes on.
\<close>

definition sim_step :: "stats_env \<Rightarrow> rat \<Rightarrow> HistoryMap list \<Rightarrow> nat \<Rightarrow> sim \<Rightarrow> sim option" where
  "sim_step env t historyMap i s =
     (if i < 1 \<or> offsite (historyMap ! (i - 1)) then
        Some (charge_hours env t (neededLevel_of env (historyMap ! i)) False
                (hours (historyMap ! i))
                (s\<lparr>lvl := Num (of_int (HistoryMap.start_level (historyMap ! i)))\<rparr>))
      else
        (let l = lvl s - num_of_null (needed (historyMap ! (i - 1)))
         in if l < Num (of_int (HistoryMap.start_level (historyMap ! i))) \<and>
               l < js_div (Num (of_int (minimum_charge env))) (Num 2)
            then None
            else
              Some (charge_hours env t (neededLevel_of env (historyMap ! i)) False
                      (hours (historyMap ! i)) (s\<lparr>lvl := l\<rparr>))))"

text \<open>The loop itself. The \<open>break\<close> leaves it with \<open>lvl = -1\<close>.\<close>

function sim_loop :: "stats_env \<Rightarrow> rat \<Rightarrow> HistoryMap list \<Rightarrow> nat \<Rightarrow> sim \<Rightarrow> sim" where
  "sim_loop env t historyMap i s =
     (if i < length historyMap then
        (case sim_step env t historyMap i s of
           None \<Rightarrow> s\<lparr>lvl := Num (- 1)\<rparr>
         | Some s1 \<Rightarrow> sim_loop env t historyMap (i + 1) s1)
      else s)"
  by pat_completeness auto
termination
  by (relation "measure (\<lambda>(env, t, historyMap, i, s). length historyMap - i)") auto

declare sim_loop.simps [simp del]

definition simulate :: "stats_env \<Rightarrow> rat \<Rightarrow> HistoryMap list \<Rightarrow> sim" where
  "simulate env t historyMap =
     sim_loop env t historyMap 0 \<lparr>totalCharged = Num 0, totalCost = Num 0, lvl = Num 0\<rparr>"

text \<open>
  The state with which the loop of \<open>simulate\<close> arrives at index \<open>i\<close>, if it does: \<open>None\<close>
  when it has left through the \<open>break\<close> or run off the end before.
\<close>

fun sim_at :: "stats_env \<Rightarrow> rat \<Rightarrow> HistoryMap list \<Rightarrow> nat \<Rightarrow> sim option" where
  "sim_at env t historyMap 0 = Some \<lparr>totalCharged = Num 0, totalCost = Num 0, lvl = Num 0\<rparr>"
| "sim_at env t historyMap (Suc i) =
     (case sim_at env t historyMap i of
        None \<Rightarrow> None
      | Some s \<Rightarrow> if i < length historyMap then sim_step env t historyMap i s else None)"

text \<open>
  The loop \<open>for (const t of thresholdList)\<close>, carrying \<open>bestCost\<close> and \<open>threshold\<close>;
  \<open>try_threshold\<close> is the body for one candidate.
\<close>

definition try_threshold ::
  "stats_env \<Rightarrow> HistoryMap list \<Rightarrow> rat \<Rightarrow> rat jsnum \<times> rat \<Rightarrow> rat jsnum \<times> rat" where
  "try_threshold env historyMap t best =
     (let s = simulate env t historyMap;
          f = js_div (totalCost s) (totalCharged s)
      in if Num (of_int (minimum_charge env)) < lvl s \<and> f < fst best then (f, t) else best)"

fun threshold_loop ::
  "stats_env \<Rightarrow> HistoryMap list \<Rightarrow> rat list \<Rightarrow> rat jsnum \<times> rat \<Rightarrow> rat jsnum \<times> rat" where
  "threshold_loop env historyMap [] best = best"
| "threshold_loop env historyMap (t # ts) best =
     threshold_loop env historyMap ts (try_threshold env historyMap t best)"

text \<open>
  \<open>createNewStats\<close>: the selected threshold (\<open>1\<close> unless a candidate wins), and the row
  inserted into \<open>current_stats\<close>, which the function returns. \<open>MAX(ts)\<close> of no rows is
  null, and \<open>Math.round(null)\<close> is \<open>0\<close>.
\<close>

definition select_threshold :: "stats_env \<Rightarrow> string \<Rightarrow> rat" where
  "select_threshold env loc =
     (let historyMap = group_history loc [] (history env)
      in if 0 < length historyMap then
           snd (threshold_loop env historyMap (thresholdList historyMap) (PosInf, 1))
         else 1)"

definition sql_max :: "int list \<Rightarrow> int option" where
  "sql_max xs = (if xs = [] then None else Some (Max (set xs)))"

definition round_null :: "rat option \<Rightarrow> int" where
  "round_null x = (case x of None \<Rightarrow> 0 | Some r \<Rightarrow> Math_round r)"

definition createNewStats ::
  "stats_env \<Rightarrow> stats_db \<Rightarrow> string \<Rightarrow> string \<Rightarrow> DBCurrentStats \<times> stats_db" where
  "createNewStats env db vehicle loc =
     (let row =
            \<lparr>stats_id = stats_id_seq db,
             vehicle_uuid = vehicle,
             location_uuid = loc,
             price_list_ts = sql_max (price_ts env),
             level_charge_time = round_null (level_charge_time env),
             weekly_avg7_price = round_null (avg7 env),
             weekly_avg21_price = round_null (avg21 env),
             threshold = Math_round (select_threshold env loc * 100)\<rparr>
      in (row, db\<lparr>current_stats := current_stats db @ [row],
                  stats_id_seq := stats_id_seq db + 1\<rparr>))"

text \<open>
  \<open>currentStats\<close>: the row of the vehicle and location with the greatest \<open>stats_id\<close>
  (\<open>ORDER BY stats_id DESC LIMIT 1\<close>) and its column \<open>fresh\<close>, the SQL comparison of
  \<open>price_list_ts\<close> with \<open>MAX(ts)\<close>, which is null, hence falsy, when a side is null.
\<close>

definition newest_stats :: "DBCurrentStats list \<Rightarrow> DBCurrentStats option" where
  "newest_stats rows =
     (case rows of
        [] \<Rightarrow> None
      | r # rs \<Rightarrow> Some (foldl (\<lambda>a b. if stats_id a < stats_id b then b else a) r rs))"

definition fresh :: "stats_env \<Rightarrow> DBCurrentStats \<Rightarrow> bool" where
  "fresh env st \<longleftrightarrow>
     (case (DBCurrentStats.price_list_ts st, sql_max (price_ts env)) of
        (Some a, Some b) \<Rightarrow> a = b
      | _ \<Rightarrow> False)"

definition currentStats ::
  "stats_env \<Rightarrow> stats_db \<Rightarrow> string \<Rightarrow> string \<Rightarrow> DBCurrentStats \<times> stats_db" where
  "currentStats env db vehicle loc =
     (case newest_stats
             (filter (\<lambda>s. DBCurrentStats.vehicle_uuid s = vehicle \<and>
                           DBCurrentStats.location_uuid s = loc) (current_stats db)) of
        Some st \<Rightarrow> if fresh env st then (st, db) else createNewStats env db vehicle loc
      | None \<Rightarrow> createNewStats env db vehicle loc)"

section \<open>The trip state machine of \<open>updateVehicleData\<close>\<close>

text \<open>
  The rows of the table \<open>trip\<close>, and the fields of the local \<open>data\<close> that the trip block
  of \<open>updateVehicleData\<close> reads. Odometer and distance are in meters.
\<close>

record DBTrip =
  trip_id :: int
  vehicle_uuid :: string
  start_ts :: int
  start_level :: int
  start_location_uuid :: "string option"
  start_odometer :: int
  start_outside_deci_temperature :: rat
  end_ts :: int
  end_level :: int
  end_location_uuid :: "string option"
  distance :: int

datatype ChargeConnection = ac | dc

record telemetry =
  level :: int
  odometer :: int
  outside_temp :: rat
  driving :: bool
  connected :: "ChargeConnection option"

text \<open>
  The stored state the block works on: the rows of the table \<open>trip\<close> by key, the
  sequence of the key, and the column \<open>trip_id\<close> of the vehicle's row.
\<close>

record trip_db =
  trip_rows :: "int \<rightharpoonup> DBTrip"
  trip_id_seq :: int
  vehicle_trip_id :: "int option"

text \<open>A query through \<open>pg.one\<close> throws when it finds no row.\<close>

datatype error = QueryResultError

text \<open>
  The end of the block, \<open>if (!data.driving)\<close>, for the trip row \<open>trp\<close> as read or
  updated before. The result carries \<open>stopTrip\<close>, which sets \<open>doPricePlan\<close>.
\<close>

definition stop_trip ::
  "trip_db \<Rightarrow> int \<Rightarrow> DBTrip \<Rightarrow> string option \<Rightarrow> telemetry \<Rightarrow> trip_db \<times> bool" where
  "stop_trip db tid trp currentLocationUUID data =
     (if \<not> driving data then
        (let (db1, stopTrip) =
               (if currentLocationUUID \<noteq> None then
                  ((if distance trp < 1000 then
                      db\<lparr>trip_rows := (trip_rows db)(tid := None)\<rparr>
                    else db),
                   True)
                else if connected data \<noteq> None then (db, True)
                else (db, False))
         in if stopTrip then
              (db1\<lparr>vehicle_trip_id :=
                      (if vehicle_trip_id db1 = Some tid then None else vehicle_trip_id db1)\<rparr>,
               True)
            else (db1, False))
      else (db, False))"

text \<open>
  \<open>Update trip record\<close>: the distance is stored when it grew by at least a meter
  (\<open>Math.round\<close> of a difference of integers is the difference).
\<close>

definition update_trip_record ::
  "trip_db \<Rightarrow> int \<Rightarrow> DBTrip \<Rightarrow> string option \<Rightarrow> telemetry \<Rightarrow> int \<Rightarrow>
     error + (trip_db \<times> DBTrip)" where
  "update_trip_record db tid trp currentLocationUUID data now_ts =
     (let dist = telemetry.odometer data - start_odometer trp;
          traveled = dist - distance trp
      in if 0 < traveled then
           (case trip_rows db tid of
              None \<Rightarrow> Inl QueryResultError
            | Some row \<Rightarrow>
                (let row1 = row\<lparr>end_ts := now_ts,
                                 end_level := telemetry.level data,
                                 end_location_uuid := currentLocationUUID,
                                 distance := dist\<rparr>
                 in Inr (db\<lparr>trip_rows := (trip_rows db)(tid \<mapsto> row1)\<rparr>, row1)))
         else Inr (db, trp))"

text \<open>
  The trip the block works on: a row inserted for a vehicle without \<open>trip_id\<close>, or the
  row read for its \<open>trip_id\<close>. The result carries the \<open>trip_id\<close> and the row.
\<close>

definition open_trip ::
  "trip_db \<Rightarrow> DBVehicle \<Rightarrow> string option \<Rightarrow> telemetry \<Rightarrow> int \<Rightarrow>
     error + (trip_db \<times> int \<times> DBTrip)" where
  "open_trip db vehicle currentLocationUUID data now_ts =
     (case DBVehicle.trip_id vehicle of
        None \<Rightarrow>
          (let row = \<lparr>trip_id = trip_id_seq db,
                      vehicle_uuid = DBVehicle.vehicle_uuid vehicle,
                      start_ts = now_ts,
                      start_level = telemetry.level data,
                      start_location_uuid = DBVehicle.location_uuid vehicle,
                      start_odometer = telemetry.odometer data,
                      start_outside_deci_temperature = outside_temp data,
                      end_ts = now_ts,
                      end_level = telemetry.level data,
                      end_location_uuid = currentLocationUUID,
                      distance = 0\<rparr>
           in Inr (db\<lparr>trip_rows := (trip_rows db)(trip_id_seq db \<mapsto> row),
                      trip_id_seq := trip_id_seq db + 1,
                      vehicle_trip_id := Some (trip_id_seq db)\<rparr>,
                   trip_id_seq db, row))
      | Some tid \<Rightarrow>
          (case trip_rows db tid of
             None \<Rightarrow> Inl QueryResultError
           | Some row \<Rightarrow> Inr (db, tid, row)))"

text \<open>
  The block \<open>if (lastLocationUUID !== currentLocationUUID || data.driving ||
  vehicle.trip_id !== null)\<close>, for the vehicle row \<open>vehicle\<close> read at the start of
  \<open>updateVehicleData\<close> (\<open>lastLocationUUID\<close> is its \<open>location_uuid\<close>). The rest of
  \<open>updateVehicleData\<close> writes neither the table \<open>trip\<close> nor the column \<open>trip_id\<close>.
\<close>

definition update_trip ::
  "trip_db \<Rightarrow> DBVehicle \<Rightarrow> string option \<Rightarrow> telemetry \<Rightarrow> int \<Rightarrow> error + (trip_db \<times> bool)" where
  "update_trip db vehicle currentLocationUUID data now_ts =
     (if DBVehicle.location_uuid vehicle \<noteq> currentLocationUUID \<or> driving data \<or>
         DBVehicle.trip_id vehicle \<noteq> None
      then
        (case open_trip db vehicle currentLocationUUID data now_ts of
           Inl e \<Rightarrow> Inl e
         | Inr (db1, tid, trp) \<Rightarrow>
             (case update_trip_record db1 tid trp currentLocationUUID data now_ts of
                Inl e \<Rightarrow> Inl e
              | Inr (db2, trp1) \<Rightarrow> Inr (stop_trip db2 tid trp1 currentLocationUUID data)))
      else Inr (db, False))"

section \<open>Properties of plans\<close>

text \<open>
  A plan is ordered when its segments ascend by \<open>chargeStart\<close> (null as \<open>-Infinity\<close>) and
  each \<open>chargeStop\<close> (null as \<open>Infinity\<close>) is at most the next \<open>chargeStart\<close>.
\<close>

fun ordered_plan :: "ChargePlan list \<Rightarrow> bool" where
  "ordered_plan (a # b # rest) =
     (nstart (chargeStart a) \<le> nstart (chargeStart b) \<and>
      nstop (chargeStop a) \<le> nstart (chargeStart b) \<and>
      ordered_plan (b # rest))"
| "ordered_plan plan = True"




text \<open>
  Example plans. The first is an emergency segment, two hours of low price filling and
  the top-up before a trip; the second has three short segments an hour apart; the third
  is a single shift; the fourth, out of order, has two overlapping routine segments, a
  filling that overlaps them, and a short segment half an hour before a trip charge.
\<close>

definition segment :: "ChargeType \<Rightarrow> int option \<Rightarrow> int option \<Rightarrow> int \<Rightarrow> string \<Rightarrow> ChargePlan" where
  "segment ty start stop lv cmt =
     \<lparr>chargeType = ty, chargeStart = start, chargeStop = stop, level = lv, comment = cmt\<rparr>"

definition overlapping_plan :: "ChargePlan list" where
  "overlapping_plan =
     [segment minimum None (Some 364800000) 50 ''emergency charge'',
      segment fill (Some 360000000) (Some 363600000) 90 ''low price'',
      segment fill (Some 363600000) (Some 367200000) 90 ''low price'',
      segment trip (Some 364200000) None 100 ''topping up before trip'']"


definition shift_plan :: "ChargePlan list" where
  "shift_plan =
     [segment fill (Some 25200000) (Some 27000000) 60 ''low price'',
      segment routine (Some 28800000) (Some 32400000) 70 ''routine charge'']"


text \<open>
  An example for the planner: a vehicle at home at \<open>20\<close> percent, below its minimum of
  \<open>50\<close>, with a stored emergency segment, no charge curve rows but a calibrated curve
  (\<open>MAX(level)\<close> is \<open>100\<close>), three price points, no prediction, and statistics whose
  price averages are \<open>0\<close>.
\<close>

definition stats_example :: DBCurrentStats where
  "stats_example =
     \<lparr>stats_id = 1, vehicle_uuid = ''car'', location_uuid = ''home'',
      price_list_ts = Some 367200000, level_charge_time = 100,
      weekly_avg7_price = 0, weekly_avg21_price = 0, threshold = 100\<rparr>"

definition planner_example :: planner_env where
  "planner_example =
     \<lparr>now = 360300000,
      chargeCurve = getChargeCurve Map.empty,
      price_list = [(360000000, 30), (363600000, 10), (367200000, 20)],
      max_level = Some 100,
      stats = Some stats_example,
      guess_charge = None,
      guess_before = None,
      render = (\<lambda>t. ''status'')\<rparr>"

definition vehicle_example :: DBVehicle where
  "vehicle_example =
     \<lparr>DBVehicle.vehicle_uuid = ''car'', location_uuid = Some ''home'', level = 20,
      minimum_charge = 50, maximum_charge = 90, anxiety_level = 0,
      scheduled_trip = None, connected = True, trip_id = None,
      charge_plan = Some [segment minimum None (Some 360000000) 50 ''emergency charge''],
      smart_status = ''''\<rparr>"

text \<open>
  An example for the statistics engine: a stale row in \<open>current_stats\<close>, two price
  points, and a history of two connections at home. The first connection starts at
  \<open>80\<close> percent and is followed by a use of \<open>70\<close>; the second starts at \<open>5\<close>.
\<close>

definition stats_env_example :: stats_env where
  "stats_env_example =
     \<lparr>stats_env.level_charge_time = Some 60, price_ts = [3600000, 7200000],
      avg7 = Some 10, avg21 = Some 10,
      history =
        [\<lparr>history_row.connected_id = 1, history_row.location_uuid = ''home'',
          history_row.start_level = 80, history_row.end_level = 90,
          history_row.needed = Some 70, history_row.hour = 0, history_row.fraction = 1,
          history_row.price = 10, history_row.threshold = 1 / 2\<rparr>,
         \<lparr>history_row.connected_id = 2, history_row.location_uuid = ''home'',
          history_row.start_level = 5, history_row.end_level = 80,
          history_row.needed = None, history_row.hour = 86400000, history_row.fraction = 1,
          history_row.price = 10, history_row.threshold = 1 / 2\<rparr>],
      minimum_charge = 50, maximum_charge = 90\<rparr>"

definition stats_db_example :: stats_db where
  "stats_db_example =
     \<lparr>current_stats =
        [\<lparr>stats_id = 1, vehicle_uuid = ''car'', location_uuid = ''home'',
          price_list_ts = Some 3600000, level_charge_time = 60,
          weekly_avg7_price = 10, weekly_avg21_price = 10, threshold = 100\<rparr>],
      stats_id_seq = 2\<rparr>"

text \<open>
  A table whose newest row for the car at home, \<open>stale_row\<close>, has the older price
  timestamp, while the row before it has the latest one.
\<close>

definition stale_row :: DBCurrentStats where
  "stale_row =
     \<lparr>stats_id = 2, vehicle_uuid = ''car'', location_uuid = ''home'',
      price_list_ts = Some 3600000, level_charge_time = 60,
      weekly_avg7_price = 10, weekly_avg21_price = 10, threshold = 100\<rparr>"

definition stats_db_mixed :: stats_db where
  "stats_db_mixed =
     \<lparr>current_stats =
        [\<lparr>stats_id = 1, vehicle_uuid = ''car'', location_uuid = ''home'',
          price_list_ts = Some 7200000, level_charge_time = 60,
          weekly_avg7_price = 10, weekly_avg21_price = 10, threshold = 100\<rparr>,
         stale_row],
      stats_id_seq = 3\<rparr>"

definition historyMap_example :: "HistoryMap list" where
  "historyMap_example = group_history ''home'' [] (history stats_env_example)"

text \<open>The same history with a second connection that starts at \<open>30\<close> percent.\<close>

definition stats_env_failing :: stats_env where
  "stats_env_failing =
     stats_env_example
       \<lparr>history :=
          [\<lparr>history_row.connected_id = 1, history_row.location_uuid = ''home'',
            history_row.start_level = 80, history_row.end_level = 90,
            history_row.needed = Some 70, history_row.hour = 0, history_row.fraction = 1,
            history_row.price = 10, history_row.threshold = 1 / 2\<rparr>,
           \<lparr>history_row.connected_id = 2, history_row.location_uuid = ''home'',
            history_row.start_level = 30, history_row.end_level = 80,
            history_row.needed = None, history_row.hour = 86400000, history_row.fraction = 1,
            history_row.price = 10, history_row.threshold = 1 / 2\<rparr>]\<rparr>"

definition historyMap_failing :: "HistoryMap list" where
  "historyMap_failing = group_history ''home'' [] (history stats_env_failing)"

text \<open>
  An example for the trip block: the vehicle is on trip \<open>7\<close>, which started away from
  any known location at odometer \<open>1000\<close>, and now stands still, \<open>500\<close> meters on.
\<close>

definition trip_example :: DBTrip where
  "trip_example =
     \<lparr>trip_id = 7, vehicle_uuid = ''car'', start_ts = 360000000, start_level = 60,
      start_location_uuid = None, start_odometer = 1000,
      start_outside_deci_temperature = 200, end_ts = 360000000, end_level = 60,
      end_location_uuid = None, distance = 0\<rparr>"

definition trip_db_example :: trip_db where
  "trip_db_example =
     \<lparr>trip_rows = [7 \<mapsto> trip_example], trip_id_seq = 8, vehicle_trip_id = Some 7\<rparr>"

definition travelling_vehicle :: DBVehicle where
  "travelling_vehicle =
     vehicle_example\<lparr>DBVehicle.location_uuid := None, DBVehicle.trip_id := Some 7\<rparr>"

definition telemetry_example :: telemetry where
  "telemetry_example =
     \<lparr>level = 58, odometer = 1500, outside_temp = 200, driving = False, connected = Some ac\<rparr>"

text \<open>
  A second example for the planner: the same vehicle with a trip to \<open>100\<close> percent
  scheduled for \<open>368050000\<close>, a curve of \<open>200\<close> seconds for every percent, and a
  prediction of \<open>30\<close> percent needed before \<open>374400000\<close>.
\<close>

definition planner_overlap :: planner_env where
  "planner_overlap =
     \<lparr>now = 360300000,
      chargeCurve = (\<lambda>l. 200),
      price_list = [(360000000, 10), (363600000, 20), (367200000, 30)],
      max_level = Some 100,
      stats = Some \<lparr>stats_id = 1, vehicle_uuid = ''car'', location_uuid = ''home'',
                    price_list_ts = Some 367200000, level_charge_time = 200,
                    weekly_avg7_price = 100, weekly_avg21_price = 100, threshold = 100\<rparr>,
      guess_charge = Some 30,
      guess_before = Some 374400,
      render = (\<lambda>t. ''status'')\<rparr>"

definition vehicle_overlap :: DBVehicle where
  "vehicle_overlap =
     \<lparr>DBVehicle.vehicle_uuid = ''car'', location_uuid = Some ''home'', level = 20,
      minimum_charge = 50, maximum_charge = 90, anxiety_level = 0,
      scheduled_trip = Some \<lparr>Schedule.level = 100, time = 368050000\<rparr>,
      connected = True, trip_id = None, charge_plan = None, smart_status = []\<rparr>"

section \<open>The reconciler\<close>

subsection \<open>Sorting keeps the segments\<close>

lemma set_insort_by: "set (insort_by c x ys) = insert x (set ys)"
  by (induction ys) auto

lemma set_Array_sort: "set (Array_sort c xs) = set xs"
  unfolding Array_sort_def by (induction xs) (auto simp: set_insort_by)


subsection \<open>Levels\<close>

lemma consolidate_levels:
  "ChargePlan.level ` set (consolidate plan) \<subseteq> ChargePlan.level ` set plan"
proof (induction plan rule: consolidate.induct)
  case (1 a b rest)
  show ?case
  proof (cases "nstart (chargeStart b) \<le> nstop (chargeStop a)")
    case False
    with 1 show ?thesis by auto
  next
    case ov: True
    show ?thesis
    proof (cases "chargeType a = chargeType b \<or> nstop (chargeStop b) \<le> nstop (chargeStop a)")
      case True
      with ov 1(1) show ?thesis by (auto simp: max_def split: if_splits)
    next
      case nm: False
      show ?thesis
      proof (cases "ChargePlan.level b \<le> ChargePlan.level a")
        case True
        with ov nm 1(2) show ?thesis by auto
      next
        case False
        with ov nm 1(3) show ?thesis by auto
      qed
    qed
  qed
qed simp_all

lemma consolidate_not_Nil: "plan \<noteq> [] \<Longrightarrow> consolidate plan \<noteq> []"
  by (induction plan rule: consolidate.induct) (auto split: if_splits)

lemma shift_pass_levels:
  "map ChargePlan.level (fst (shift_pass plan)) = map ChargePlan.level plan"
  by (induction plan rule: shift_pass.induct) (auto split: prod.splits)

lemma cleanupPlan_level_subset:
  "ChargePlan.level ` set (cleanupPlan plan) \<subseteq> ChargePlan.level ` set plan"
proof -
  let ?p1 = "consolidate (Array_sort plan_compare plan)"
  obtain plan2 shifted where sp: "shift_pass ?p1 = (plan2, shifted)"
    by (cases "shift_pass ?p1")
  have l1: "ChargePlan.level ` set ?p1 \<subseteq> ChargePlan.level ` set plan"
    using consolidate_levels [of "Array_sort plan_compare plan"] by (simp add: set_Array_sort)
  have "map ChargePlan.level plan2 = map ChargePlan.level ?p1"
    using shift_pass_levels [of ?p1] sp by simp
  then have l2: "ChargePlan.level ` set plan2 = ChargePlan.level ` set ?p1"
    by (metis set_map)
  have l3: "ChargePlan.level ` set (consolidate plan2) \<subseteq> ChargePlan.level ` set plan2"
    by (rule consolidate_levels)
  have "cleanupPlan plan = (if shifted then consolidate plan2 else plan2)"
    by (simp add: cleanupPlan_def sp)
  then have "ChargePlan.level ` set (cleanupPlan plan) \<subseteq> ChargePlan.level ` set plan2"
    using l3 by (cases shifted) simp_all
  with l2 l1 show ?thesis by simp
qed

lemma cleanupPlan_not_Nil: "plan \<noteq> [] \<Longrightarrow> cleanupPlan plan \<noteq> []"
proof -
  assume ne: "plan \<noteq> []"
  let ?p1 = "consolidate (Array_sort plan_compare plan)"
  obtain plan2 shifted where sp: "shift_pass ?p1 = (plan2, shifted)"
    by (cases "shift_pass ?p1")
  from ne have "Array_sort plan_compare plan \<noteq> []"
    using set_Array_sort [of plan_compare plan] by (metis set_empty)
  then have "?p1 \<noteq> []" by (rule consolidate_not_Nil)
  moreover have "map ChargePlan.level plan2 = map ChargePlan.level ?p1"
    using shift_pass_levels [of ?p1] sp by simp
  ultimately have p2: "plan2 \<noteq> []" by (metis map_is_Nil_conv)
  have "cleanupPlan plan = (if shifted then consolidate plan2 else plan2)"
    by (simp add: cleanupPlan_def sp)
  with p2 consolidate_not_Nil [OF p2] show ?thesis by simp
qed

text \<open>
  C10: \<open>cleanupPlan\<close> never invents a battery level. Every level of the reconciled plan
  is the level of a segment of the input, and the greatest level of a plan that is not
  empty does not grow.
\<close>

theorem cleanupPlan_levels:
  "ChargePlan.level ` set (cleanupPlan plan) \<subseteq> ChargePlan.level ` set plan \<and>
   (plan \<noteq> [] \<longrightarrow>
      cleanupPlan plan \<noteq> [] \<and>
      Max (ChargePlan.level ` set (cleanupPlan plan)) \<le> Max (ChargePlan.level ` set plan))"
proof (intro conjI impI)
  show sub: "ChargePlan.level ` set (cleanupPlan plan) \<subseteq> ChargePlan.level ` set plan"
    by (rule cleanupPlan_level_subset)
  assume ne: "plan \<noteq> []"
  then show ne': "cleanupPlan plan \<noteq> []" by (rule cleanupPlan_not_Nil)
  from ne ne' sub
  show "Max (ChargePlan.level ` set (cleanupPlan plan)) \<le> Max (ChargePlan.level ` set plan)"
    by (intro Max_mono) simp_all
qed

theorem cleanupPlan_levels_witness:
  "overlapping_plan \<noteq> [] \<and>
   ChargePlan.level ` set (cleanupPlan overlapping_plan)
     \<subseteq> ChargePlan.level ` set overlapping_plan \<and>
   cleanupPlan overlapping_plan \<noteq> [] \<and>
   Max (ChargePlan.level ` set (cleanupPlan overlapping_plan))
     \<le> Max (ChargePlan.level ` set overlapping_plan)"
  using cleanupPlan_levels [of overlapping_plan] by (simp add: overlapping_plan_def)

subsection \<open>Order\<close>

text \<open>
  C1: the plan returned by \<open>cleanupPlan\<close> should be ordered. It is not for
  \<open>overlapping_plan\<close>: the emergency segment takes over the level \<open>90\<close> of the first
  filling hour, pushes the second filling hour behind its own end, and the top-up then
  cuts that hour off at a time before its start. The result has a segment that starts
  after it stops and after its successor starts. The planner hands such a list to
  \<open>cleanupPlan\<close> itself: for \<open>planner_overlap\<close> and \<open>vehicle_overlap\<close> the plan stored is
  of the same shape.
\<close>

theorem cleanupPlan_overlapping_plan:
  "cleanupPlan overlapping_plan =
     [segment minimum None (Some 364800000) 90 ''emergency charge'',
      segment fill (Some 364800000) (Some 364200000) 90 ''low price'',
      segment ChargeType.trip (Some 364200000) None 100 ''topping up before trip''] \<and>
   \<not> ordered_plan (cleanupPlan overlapping_plan) \<and>
   charge_plan (refreshVehicleChargePlan planner_overlap vehicle_overlap) =
     Some [segment minimum None (Some 366450000) 90 ''emergency charge'',
           segment routine (Some 366450000) (Some 365000000) 90 ''routine charge'',
           segment ChargeType.trip (Some 365000000) None 100 ''topping up before trip''] \<and>
   \<not> ordered_plan (cleanupPlan (p_plan (accumulate planner_overlap vehicle_overlap)))"
  by code_simp

subsection \<open>Fixed points\<close>

















section \<open>Charge durations and segment generation\<close>

lemma chargeDuration_loop_sum:
  "chargeDuration_loop curve to k acc =
     acc + (\<Sum>l = k..to. curve (min 100 l) * (if l < to then 1 else 3 / 4))"
proof (induction curve to k acc rule: chargeDuration_loop.induct)
  case (1 curve to k acc)
  show ?case
  proof (cases "k \<le> to")
    case True
    then have "{k..to} = insert k {k + 1..to}" by auto
    then have "(\<Sum>l = k..to. curve (min 100 l) * (if l < to then 1 else 3 / 4)) =
        curve (min 100 k) * (if k < to then 1 else 3 / 4) +
        (\<Sum>l = k + 1..to. curve (min 100 l) * (if l < to then 1 else 3 / 4))"
      by simp
    with True "1.IH" show ?thesis
      by (simp add: chargeDuration_loop.simps [of curve to k acc])
  next
    case False
    then show ?thesis by (simp add: chargeDuration_loop.simps [of curve to k acc])
  qed
qed

lemma chargeDuration_sum:
  "chargeDuration curve from to =
     (\<Sum>l = from..to. curve (min 100 l) * (if l < to then 1 else 3 / 4)) * 1000"
  by (simp only: chargeDuration_def chargeDuration_loop_sum add_0_left)

lemma chargeDuration_spec_upto_100:
  "to \<le> 100 \<Longrightarrow> chargeDuration curve from to = chargeDuration_spec curve from to"
  unfolding chargeDuration_def chargeDuration_loop_sum chargeDuration_spec_def
  by (intro arg_cong2 [where f = "(*)"] sum.cong) auto

text \<open>
  C7: for levels \<open>0 \<le> from \<le> to \<le> 100\<close>, \<open>chargeDuration\<close> is the sum over the levels
  \<open>l = from..to\<close> of the stored duration of level \<open>l\<close>, or \<open>100\<close> where none is
  stored, weighted \<open>1.0\<close> for \<open>l < to\<close> and \<open>0.75\<close> for the last level, times \<open>1000\<close>.
\<close>

theorem chargeDuration_levels:
  assumes "0 \<le> from" and "from \<le> to" and "to \<le> 100"
  shows "chargeDuration (getChargeCurve stored) from to =
     (\<Sum>l = from..to.
        (case stored l of Some d \<Rightarrow> d | None \<Rightarrow> 100) * (if l < to then 1 else 3 / 4)) * 1000"
proof -
  have "(\<Sum>l = from..to. getChargeCurve stored (min 100 l) * (if l < to then 1 else 3 / 4)) =
      (\<Sum>l = from..to.
         (case stored l of Some d \<Rightarrow> d | None \<Rightarrow> 100) * (if l < to then 1 else 3 / 4))"
    using assms(3) by (intro sum.cong) (auto simp: getChargeCurve_def)
  then show ?thesis by (simp only: chargeDuration_def chargeDuration_loop_sum add_0_left)
qed

theorem chargeDuration_levels_witness:
  "(0::int) \<le> 49 \<and> (49::int) \<le> 51 \<and> (51::int) \<le> 100 \<and>
   chargeDuration (getChargeCurve [50 \<mapsto> 60]) 49 51 = 235000 \<and>
   chargeDuration (getChargeCurve Map.empty) 50 90 = 4075000"
proof -
  have a: "{49..51} = {49, 50, 51::int}" by auto
  have b: "(\<Sum>l = 50..90::int. (100::rat) * (if l < 90 then 1 else 3 / 4)) = 4075"
  proof -
    have "{50..90::int} = insert 90 {50..89}" by auto
    then have "(\<Sum>l = 50..90::int. (100::rat) * (if l < 90 then 1 else 3 / 4)) =
        75 + (\<Sum>l = 50..89::int. (100::rat) * (if l < 90 then 1 else 3 / 4))" by simp
    also have "(\<Sum>l = 50..89::int. (100::rat) * (if l < 90 then 1 else 3 / 4)) =
        (\<Sum>l = 50..89::int. 100)" by (intro sum.cong) auto
    finally show ?thesis by simp
  qed
  from chargeDuration_levels [of 49 51 "[50 \<mapsto> 60]"] a
  have 1: "chargeDuration (getChargeCurve [50 \<mapsto> 60]) 49 51 = 235000" by simp
  from chargeDuration_levels [of 50 90 Map.empty] b
  have 2: "chargeDuration (getChargeCurve Map.empty) 50 90 = 4075000" by simp
  from 1 2 show ?thesis by simp
qed

lemma price_loop_zero:
  "price_loop env b (Some 0) batteryLevel ty cmt timeLeft priceMap =
   price_loop env b None batteryLevel ty cmt timeLeft priceMap"
  by (induction priceMap arbitrary: timeLeft) (auto simp: Let_def)

lemma generateChargePlan_zero:
  "generateChargePlan env vehicle batteryLevel ty cmt b (Some 0) =
   generateChargePlan env vehicle batteryLevel ty cmt b None"
  by (simp add: generateChargePlan_def price_loop_zero Let_def)

text \<open>
  C9: a \<open>maxPrice\<close> of \<open>0\<close> caps nothing. \<open>generateChargePlan\<close> returns the plan it
  returns without \<open>maxPrice\<close>; so does the low price fill of the planner when the
  threshold price of the statistics is \<open>0\<close>.
\<close>

theorem generateChargePlan_maxPrice_zero:
  "generateChargePlan env vehicle batteryLevel ty cmt b (Some 0) =
     generateChargePlan env vehicle batteryLevel ty cmt b None \<and>
   (stats env = Some st \<and> thresholdPrice st = 0 \<longrightarrow>
      p_plan (fill_block env vehicle pl) =
        p_plan pl @
        generateChargePlan env vehicle (DBVehicle.maximum_charge vehicle) fill ''low price''
          (Some (p_disconnectTime pl)) None)"
  by (simp add: fill_block_def generateChargePlan_zero)

theorem generateChargePlan_maxPrice_zero_witness:
  "stats planner_example = Some stats_example \<and>
   thresholdPrice stats_example = 0 \<and>
   generateChargePlan planner_example vehicle_example 90 fill ''low price'' (Some 0) (Some 0) =
     [segment fill (Some 363600000) (Some 367200000) 90 ''low price'',
      segment fill (Some 367200000) (Some 370675000) 90 ''low price''] \<and>
   generateChargePlan planner_example vehicle_example 90 fill ''low price'' (Some 0) None =
     [segment fill (Some 363600000) (Some 367200000) 90 ''low price'',
      segment fill (Some 367200000) (Some 370675000) 90 ''low price''] \<and>
   p_plan (fill_block planner_example vehicle_example
            \<lparr>p_plan = [], p_status = [], p_disconnectTime = 0, p_clear_trip = False\<rparr>) =
     generateChargePlan planner_example vehicle_example 90 fill ''low price'' (Some 0) None"
proof -
  have s: "stats planner_example = Some stats_example" by (simp add: planner_example_def)
  have t: "thresholdPrice stats_example = 0" by code_simp
  have g: "generateChargePlan planner_example vehicle_example 90 fill ''low price'' (Some 0) None =
     [segment fill (Some 363600000) (Some 367200000) 90 ''low price'',
      segment fill (Some 367200000) (Some 370675000) 90 ''low price'']"
    by code_simp
  have m: "DBVehicle.maximum_charge vehicle_example = 90" by (simp add: vehicle_example_def)
  from s t g m
    generateChargePlan_maxPrice_zero [of planner_example vehicle_example 90 fill
      "''low price''" "Some 0" stats_example
      "\<lparr>p_plan = [], p_status = [], p_disconnectTime = 0, p_clear_trip = False\<rparr>"]
  show ?thesis by simp
qed

section \<open>The planner's blocks\<close>

lemma cleanupPlan_single: "cleanupPlan [s] = [s]"
  by (simp add: cleanupPlan_def Array_sort_def)

text \<open>
  C8: the calibration override. For a vehicle at a known location with
  \<open>level < maximum_charge\<close> whose charge curve rows have no level or none of \<open>100\<close>, the
  plan stored is the single calibration segment, whatever the other sub-plans would be.
\<close>

theorem calibration_override:
  assumes "DBVehicle.location_uuid vehicle \<noteq> None"
    and "DBVehicle.level vehicle < DBVehicle.maximum_charge vehicle"
    and "max_level env = None \<or> (\<exists>m. max_level env = Some m \<and> m < 100)"
  shows "charge_plan (refreshVehicleChargePlan env vehicle) =
     Some [\<lparr>chargeType = calibrate, chargeStart = None, chargeStop = None, level = 100,
            comment = ''Charge calibration''\<rparr>]"
proof -
  from assms(2,3) have "calibration_needed env vehicle"
    by (auto simp: calibration_needed_def)
  then have "p_plan (accumulate env vehicle) = [calibration_segment]"
    by (simp add: accumulate_def calibration_block_def setSmartStatus_def Let_def)
  with assms(1) show ?thesis
    by (auto simp: refreshVehicleChargePlan_def cleanupPlan_single calibration_segment_def Let_def)
qed

theorem calibration_override_witness:
  "DBVehicle.location_uuid vehicle_example \<noteq> None \<and>
   DBVehicle.level vehicle_example < DBVehicle.maximum_charge vehicle_example \<and>
   max_level (planner_example\<lparr>max_level := Some 99\<rparr>) = Some 99 \<and>
   charge_plan (refreshVehicleChargePlan (planner_example\<lparr>max_level := Some 99\<rparr>)
      vehicle_example) =
     Some [\<lparr>chargeType = calibrate, chargeStart = None, chargeStop = None, level = 100,
            comment = ''Charge calibration''\<rparr>]"
proof -
  have l: "DBVehicle.location_uuid vehicle_example \<noteq> None"
    by (simp add: vehicle_example_def)
  have m: "DBVehicle.level vehicle_example < DBVehicle.maximum_charge vehicle_example"
    by (simp add: vehicle_example_def)
  have c: "max_level (planner_example\<lparr>max_level := Some 99\<rparr>) = None \<or>
     (\<exists>m. max_level (planner_example\<lparr>max_level := Some 99\<rparr>) = Some m \<and> m < 100)"
    by simp
  from l m calibration_override [OF l m c] show ?thesis by simp
qed

lemma setSmartStatus_plan [simp]: "p_plan (setSmartStatus v st pl) = p_plan pl"
  by (simp add: setSmartStatus_def)

lemma learning_block_appends: "\<exists>ys. p_plan (learning_block v pl) = p_plan pl @ ys"
  by (simp add: learning_block_def)

lemma routine_block_appends: "\<exists>ys. p_plan (routine_block env v c g pl) = p_plan pl @ ys"
  by (simp add: routine_block_def Let_def)

lemma smart_block_appends: "\<exists>ys. p_plan (smart_block env v pl) = p_plan pl @ ys"
  using learning_block_appends [of v pl] routine_block_appends [of env v _ _ pl]
  by (auto simp: smart_block_def split: option.splits)

lemma trip_block_appends: "\<exists>ys. p_plan (trip_block env v pl) = p_plan pl @ ys"
  by (auto simp: trip_block_def Let_def split: option.splits)

lemma fill_block_appends: "\<exists>ys. p_plan (fill_block env v pl) = p_plan pl @ ys"
  by (auto simp: fill_block_def split: option.splits)

lemma generateChargePlan_charge_plan [simp]:
  "generateChargePlan env (v\<lparr>charge_plan := cp\<rparr>) l ty c b m =
   generateChargePlan env v l ty c b m"
  by (simp add: generateChargePlan_def)

lemma setSmartStatus_charge_plan [simp]:
  "setSmartStatus (v\<lparr>charge_plan := cp\<rparr>) st pl = setSmartStatus v st pl"
  by (simp add: setSmartStatus_def)

lemma smart_block_charge_plan [simp]:
  "smart_block env (v\<lparr>charge_plan := cp\<rparr>) pl = smart_block env v pl"
  by (simp add: smart_block_def learning_block_def routine_block_def learning_segment_def
      cong: option.case_cong if_cong)

lemma trip_block_charge_plan [simp]:
  "trip_block env (v\<lparr>charge_plan := cp\<rparr>) pl = trip_block env v pl"
  by (simp add: trip_block_def cong: option.case_cong if_cong)

lemma fill_block_charge_plan [simp]:
  "fill_block env (v\<lparr>charge_plan := cp\<rparr>) pl = fill_block env v pl"
  by (simp add: fill_block_def cong: option.case_cong)

text \<open>
  C5, as amended: for a vehicle with \<open>level < minimum_charge\<close> that needs no calibration,
  the emergency segment \<open>{null, now + chargeDuration(level, minimum_charge),
  minimum_charge, minimum, "emergency charge"}\<close> replaces the plan accumulated so far: after
  the block the plan is that segment alone, the later sub-plans are appended behind it,
  and the stored plan, from which the seed is taken, has no influence on the result.
\<close>

theorem emergency_replaces_plan:
  assumes "\<not> calibration_needed env vehicle"
    and "DBVehicle.level vehicle < DBVehicle.minimum_charge vehicle"
  shows "p_plan (emergency_block env vehicle pl) =
           [\<lparr>chargeType = minimum,
             chargeStart = None,
             chargeStop =
               Date_of (of_int (now env) +
                 chargeDuration (chargeCurve env) (DBVehicle.level vehicle)
                   (DBVehicle.minimum_charge vehicle)),
             level = DBVehicle.minimum_charge vehicle,
             comment = ''emergency charge''\<rparr>] \<and>
         (\<exists>rest. p_plan (accumulate env vehicle) = emergency_segment env vehicle # rest) \<and>
         accumulate env (vehicle\<lparr>charge_plan := cp\<rparr>) = accumulate env vehicle"
proof (intro conjI)
  show "p_plan (emergency_block env vehicle pl) =
           [\<lparr>chargeType = minimum,
             chargeStart = None,
             chargeStop =
               Date_of (of_int (now env) +
                 chargeDuration (chargeCurve env) (DBVehicle.level vehicle)
                   (DBVehicle.minimum_charge vehicle)),
             level = DBVehicle.minimum_charge vehicle,
             comment = ''emergency charge''\<rparr>]"
    using assms(2) by (simp add: emergency_block_def emergency_segment_def)
next
  let ?pl = "\<lparr>p_plan = seedPlan vehicle, p_status = smart_status vehicle,
               p_disconnectTime = 0, p_clear_trip = False\<rparr>"
  have e: "p_plan (emergency_block env vehicle ?pl) = [emergency_segment env vehicle]"
    using assms(2) by (simp add: emergency_block_def)
  obtain xs where "p_plan (smart_block env vehicle (emergency_block env vehicle ?pl)) =
      p_plan (emergency_block env vehicle ?pl) @ xs"
    using smart_block_appends by blast
  moreover obtain ys where
    "p_plan (trip_block env vehicle (smart_block env vehicle (emergency_block env vehicle ?pl))) =
      p_plan (smart_block env vehicle (emergency_block env vehicle ?pl)) @ ys"
    using trip_block_appends by blast
  moreover obtain zs where
    "p_plan (fill_block env vehicle (trip_block env vehicle
        (smart_block env vehicle (emergency_block env vehicle ?pl)))) =
      p_plan (trip_block env vehicle (smart_block env vehicle (emergency_block env vehicle ?pl)))
        @ zs"
    using fill_block_appends by blast
  ultimately show "\<exists>rest. p_plan (accumulate env vehicle) = emergency_segment env vehicle # rest"
    using assms(1) e by (simp add: accumulate_def)
next
  have c: "calibration_needed env (vehicle\<lparr>charge_plan := cp\<rparr>) = calibration_needed env vehicle"
    by (simp add: calibration_needed_def)
  have "emergency_block env (vehicle\<lparr>charge_plan := cp\<rparr>)
          \<lparr>p_plan = seedPlan (vehicle\<lparr>charge_plan := cp\<rparr>), p_status = smart_status vehicle,
            p_disconnectTime = 0, p_clear_trip = False\<rparr> =
        emergency_block env vehicle
          \<lparr>p_plan = seedPlan vehicle, p_status = smart_status vehicle,
            p_disconnectTime = 0, p_clear_trip = False\<rparr>"
    using assms(2) by (simp add: emergency_block_def emergency_segment_def setSmartStatus_def)
  with assms(1) c show "accumulate env (vehicle\<lparr>charge_plan := cp\<rparr>) = accumulate env vehicle"
    by (simp add: accumulate_def)
qed

theorem emergency_replaces_plan_witness:
  "\<not> calibration_needed planner_example vehicle_example \<and>
   DBVehicle.level vehicle_example < DBVehicle.minimum_charge vehicle_example \<and>
   p_plan (emergency_block planner_example vehicle_example
      \<lparr>p_plan = seedPlan vehicle_example, p_status = [], p_disconnectTime = 0,
        p_clear_trip = False\<rparr>) =
     [segment minimum None (Some 363375000) 50 ''emergency charge''] \<and>
   (\<exists>rest. p_plan (accumulate planner_example vehicle_example) =
      emergency_segment planner_example vehicle_example # rest) \<and>
   accumulate planner_example (vehicle_example\<lparr>charge_plan := None\<rparr>) =
     accumulate planner_example vehicle_example"
proof -
  have c: "\<not> calibration_needed planner_example vehicle_example" by code_simp
  have l: "DBVehicle.level vehicle_example < DBVehicle.minimum_charge vehicle_example"
    by (simp add: vehicle_example_def)
  have d: "Date_of (of_int (now planner_example) +
      chargeDuration (chargeCurve planner_example) (DBVehicle.level vehicle_example)
        (DBVehicle.minimum_charge vehicle_example)) = Some 363375000"
    by code_simp
  have m: "DBVehicle.minimum_charge vehicle_example = 50" by (simp add: vehicle_example_def)
  from c l d m
    emergency_replaces_plan [OF c l,
      of "\<lparr>p_plan = seedPlan vehicle_example, p_status = [], p_disconnectTime = 0,
           p_clear_trip = False\<rparr>" None]
  show ?thesis by (simp add: segment_def)
qed

theorem emergency_drops_seed:
  "seedPlan vehicle_example = [segment minimum None (Some 360000000) 50 ''emergency charge''] \<and>
   p_plan (accumulate planner_example vehicle_example) =
     [segment minimum None (Some 363375000) 50 ''emergency charge'',
      segment fill None None 90 ''learning'',
      segment fill (Some 363600000) (Some 367200000) 90 ''low price'',
      segment fill (Some 367200000) (Some 370675000) 90 ''low price''] \<and>
   segment minimum None (Some 360000000) 50 ''emergency charge''
     \<notin> set (p_plan (accumulate planner_example vehicle_example))"
  by code_simp

section \<open>The statistics engine: stored rows and the simulation\<close>

lemma newest_fold_mem:
  "foldl (\<lambda>a b. if stats_id a < stats_id b then b else a) r rs \<in> set (r # rs)"
  by (induction rs arbitrary: r) (auto split: if_splits)

lemma newest_stats_snoc:
  assumes "\<forall>x \<in> set rows. stats_id x < stats_id row"
  shows "newest_stats (rows @ [row]) = Some row"
proof (cases rows)
  case Nil
  then show ?thesis by (simp add: newest_stats_def)
next
  case (Cons r rs)
  let ?f = "\<lambda>a b. if stats_id a < stats_id b then b else a"
  have "foldl ?f r rs \<in> set (r # rs)" by (rule newest_fold_mem)
  with assms Cons have "stats_id (foldl ?f r rs) < stats_id row" by auto
  with Cons show ?thesis by (simp add: newest_stats_def)
qed

lemma createNewStats_then_currentStats:
  assumes "price_ts env \<noteq> []"
    and "\<forall>r \<in> set (current_stats db). stats_id r < stats_id_seq db"
  shows "currentStats env (snd (createNewStats env db vehicle loc)) vehicle loc =
     createNewStats env db vehicle loc"
proof -
  obtain row where row: "row = fst (createNewStats env db vehicle loc)" by simp
  have db1: "snd (createNewStats env db vehicle loc) =
      db\<lparr>current_stats := current_stats db @ [row], stats_id_seq := stats_id_seq db + 1\<rparr>"
    by (simp add: row createNewStats_def Let_def)
  have id: "stats_id row = stats_id_seq db"
    and v: "DBCurrentStats.vehicle_uuid row = vehicle"
    and l: "DBCurrentStats.location_uuid row = loc"
    and ts: "DBCurrentStats.price_list_ts row = sql_max (price_ts env)"
    by (simp_all add: row createNewStats_def Let_def)
  let ?P = "\<lambda>s. DBCurrentStats.vehicle_uuid s = vehicle \<and> DBCurrentStats.location_uuid s = loc"
  have "\<forall>x \<in> set (filter ?P (current_stats db)). stats_id x < stats_id row"
    using assms(2) id by simp
  then have "newest_stats (filter ?P (current_stats db) @ [row]) = Some row"
    by (rule newest_stats_snoc)
  then have n: "newest_stats (filter ?P (current_stats db @ [row])) = Some row"
    using v l by simp
  have f: "fresh env row"
    using assms(1) ts by (simp add: fresh_def sql_max_def)
  have "currentStats env (snd (createNewStats env db vehicle loc)) vehicle loc =
      (row, snd (createNewStats env db vehicle loc))"
    unfolding db1 using n f by (simp add: currentStats_def)
  then show ?thesis by (simp add: row)
qed

lemma newest_fold_max:
  "\<forall>x \<in> set (r # rs).
     stats_id x \<le> stats_id (foldl (\<lambda>a b. if stats_id a < stats_id b then b else a) r rs)"
proof (induction rs arbitrary: r)
  case Nil
  show ?case by simp
next
  case (Cons y ys)
  let ?f = "\<lambda>a b. if stats_id a < stats_id b then b else a"
  from Cons [of "?f r y"] show ?case by (auto split: if_splits)
qed

lemma newest_stats_greatest:
  assumes "st \<in> set rows"
    and "\<forall>r \<in> set rows. r \<noteq> st \<longrightarrow> stats_id r < stats_id st"
  shows "newest_stats rows = Some st"
proof (cases rows)
  case Nil
  with assms(1) show ?thesis by simp
next
  case (Cons r rs)
  let ?m = "foldl (\<lambda>a b. if stats_id a < stats_id b then b else a) r rs"
  have "?m \<in> set rows" using newest_fold_mem [of r rs] Cons by simp
  moreover have "stats_id st \<le> stats_id ?m" using newest_fold_max [of r rs] assms(1) Cons by auto
  ultimately have "?m = st" using assms(2) by force
  with Cons show ?thesis by (simp add: newest_stats_def)
qed

lemma fresh_iff:
  "fresh env st \<longleftrightarrow>
     price_ts env \<noteq> [] \<and> DBCurrentStats.price_list_ts st = Some (Max (set (price_ts env)))"
  by (auto simp: fresh_def sql_max_def split: option.splits)

lemma currentStats_greatest:
  assumes "st \<in> set (current_stats db)"
    and "DBCurrentStats.vehicle_uuid st = vehicle" and "DBCurrentStats.location_uuid st = loc"
    and "\<forall>r \<in> set (current_stats db).
           DBCurrentStats.vehicle_uuid r = vehicle \<and> DBCurrentStats.location_uuid r = loc \<and> r \<noteq> st
           \<longrightarrow> stats_id r < stats_id st"
  shows "currentStats env db vehicle loc =
     (if price_ts env \<noteq> [] \<and> DBCurrentStats.price_list_ts st = Some (Max (set (price_ts env)))
      then (st, db) else createNewStats env db vehicle loc)"
proof -
  let ?P = "\<lambda>s. DBCurrentStats.vehicle_uuid s = vehicle \<and> DBCurrentStats.location_uuid s = loc"
  have "newest_stats (filter ?P (current_stats db)) = Some st"
    using assms by (intro newest_stats_greatest) auto
  then show ?thesis by (simp add: currentStats_def fresh_iff)
qed

lemma currentStats_no_row:
  assumes "\<forall>r \<in> set (current_stats db).
     \<not> (DBCurrentStats.vehicle_uuid r = vehicle \<and> DBCurrentStats.location_uuid r = loc)"
  shows "currentStats env db vehicle loc = createNewStats env db vehicle loc"
proof -
  have "filter (\<lambda>s. DBCurrentStats.vehicle_uuid s = vehicle \<and> DBCurrentStats.location_uuid s = loc)
      (current_stats db) = []"
    using assms by (simp add: filter_empty_conv)
  then show ?thesis by (simp add: currentStats_def newest_stats_def)
qed

lemma currentStats_no_price:
  assumes "price_ts env = []"
  shows "currentStats env db vehicle loc = createNewStats env db vehicle loc"
  using assms by (simp add: currentStats_def fresh_iff split: option.splits)

lemma currentStats_with_price:
  assumes "price_ts env \<noteq> []"
    and "\<forall>r \<in> set (current_stats db). stats_id r < stats_id_seq db"
  shows "currentStats env (snd (currentStats env db vehicle loc)) vehicle loc =
           currentStats env db vehicle loc \<and>
         DBCurrentStats.price_list_ts (fst (currentStats env db vehicle loc)) =
           Some (Max (set (price_ts env)))"
proof -
  let ?P = "\<lambda>s. DBCurrentStats.vehicle_uuid s = vehicle \<and> DBCurrentStats.location_uuid s = loc"
  have fr: "DBCurrentStats.price_list_ts (fst (createNewStats env db vehicle loc)) =
      Some (Max (set (price_ts env)))"
    using assms(1) by (simp add: sql_max_def createNewStats_def Let_def)
  show ?thesis
  proof (cases "newest_stats (filter ?P (current_stats db))")
    case None
    then have "currentStats env db vehicle loc = createNewStats env db vehicle loc"
      by (simp add: currentStats_def)
    with createNewStats_then_currentStats [OF assms] fr show ?thesis by simp
  next
    case (Some st)
    show ?thesis
    proof (cases "fresh env st")
      case True
      with Some have "currentStats env db vehicle loc = (st, db)"
        by (simp add: currentStats_def)
      with True show ?thesis by (simp add: fresh_iff)
    next
      case False
      with Some have "currentStats env db vehicle loc = createNewStats env db vehicle loc"
        by (simp add: currentStats_def)
      with createNewStats_then_currentStats [OF assms] fr show ?thesis by simp
    qed
  qed
qed

text \<open>
  C3, as amended. \<open>currentStats\<close> looks at the stored row of the vehicle and location
  with the greatest \<open>stats_id\<close>: it returns that row, and stores nothing, when the price
  list of the location is not empty and the row's \<open>price_list_ts\<close> is the latest price
  timestamp; otherwise, and when there is no row for the vehicle and location, it runs
  \<open>createNewStats\<close>. With stored keys that come from the sequence: when the price list
  is not empty, a second call with nothing changed in between returns the row of the
  first call and stores nothing, and that row has the latest price timestamp; when the
  price list is empty, every call runs \<open>createNewStats\<close>, and the second call returns a
  row with the next key.
\<close>

theorem currentStats_twice:
  assumes "\<forall>r \<in> set (current_stats db). stats_id r < stats_id_seq db"
  shows
    "(st \<in> set (current_stats db) \<and>
      DBCurrentStats.vehicle_uuid st = vehicle \<and> DBCurrentStats.location_uuid st = loc \<and>
      (\<forall>r \<in> set (current_stats db).
         DBCurrentStats.vehicle_uuid r = vehicle \<and> DBCurrentStats.location_uuid r = loc \<and> r \<noteq> st
         \<longrightarrow> stats_id r < stats_id st) \<longrightarrow>
      currentStats env db vehicle loc =
        (if price_ts env \<noteq> [] \<and>
            DBCurrentStats.price_list_ts st = Some (Max (set (price_ts env)))
         then (st, db) else createNewStats env db vehicle loc)) \<and>
     ((\<forall>r \<in> set (current_stats db).
         \<not> (DBCurrentStats.vehicle_uuid r = vehicle \<and> DBCurrentStats.location_uuid r = loc)) \<longrightarrow>
      currentStats env db vehicle loc = createNewStats env db vehicle loc) \<and>
     (price_ts env \<noteq> [] \<longrightarrow>
      currentStats env (snd (currentStats env db vehicle loc)) vehicle loc =
        currentStats env db vehicle loc \<and>
      DBCurrentStats.price_list_ts (fst (currentStats env db vehicle loc)) =
        Some (Max (set (price_ts env)))) \<and>
     (price_ts env = [] \<longrightarrow>
      currentStats env db vehicle loc = createNewStats env db vehicle loc \<and>
      stats_id (fst (currentStats env db vehicle loc)) = stats_id_seq db \<and>
      stats_id (fst (currentStats env (snd (currentStats env db vehicle loc)) vehicle loc)) =
        stats_id_seq db + 1)"
proof (intro conjI impI)
  assume "st \<in> set (current_stats db) \<and>
      DBCurrentStats.vehicle_uuid st = vehicle \<and> DBCurrentStats.location_uuid st = loc \<and>
      (\<forall>r \<in> set (current_stats db).
         DBCurrentStats.vehicle_uuid r = vehicle \<and> DBCurrentStats.location_uuid r = loc \<and> r \<noteq> st
         \<longrightarrow> stats_id r < stats_id st)"
  then show "currentStats env db vehicle loc =
        (if price_ts env \<noteq> [] \<and>
            DBCurrentStats.price_list_ts st = Some (Max (set (price_ts env)))
         then (st, db) else createNewStats env db vehicle loc)"
    by (intro currentStats_greatest) blast+
next
  assume "\<forall>r \<in> set (current_stats db).
         \<not> (DBCurrentStats.vehicle_uuid r = vehicle \<and> DBCurrentStats.location_uuid r = loc)"
  then show "currentStats env db vehicle loc = createNewStats env db vehicle loc"
    by (rule currentStats_no_row)
next
  assume p: "price_ts env \<noteq> []"
  from currentStats_with_price [OF p assms]
  show "currentStats env (snd (currentStats env db vehicle loc)) vehicle loc =
        currentStats env db vehicle loc" by blast
  from currentStats_with_price [OF p assms]
  show "DBCurrentStats.price_list_ts (fst (currentStats env db vehicle loc)) =
        Some (Max (set (price_ts env)))" by blast
next
  assume p: "price_ts env = []"
  then show c: "currentStats env db vehicle loc = createNewStats env db vehicle loc"
    by (rule currentStats_no_price)
  then show "stats_id (fst (currentStats env db vehicle loc)) = stats_id_seq db"
    by (simp add: createNewStats_def Let_def)
  have "currentStats env (snd (currentStats env db vehicle loc)) vehicle loc =
      createNewStats env (snd (createNewStats env db vehicle loc)) vehicle loc"
    using c currentStats_no_price [OF p] by simp
  then show "stats_id (fst (currentStats env (snd (currentStats env db vehicle loc)) vehicle loc)) =
        stats_id_seq db + 1"
    by (simp add: createNewStats_def Let_def)
qed

theorem currentStats_twice_witness:
  "map stats_id (current_stats stats_db_mixed) = [1, 2] \<and>
   map DBCurrentStats.price_list_ts (current_stats stats_db_mixed) = [Some 7200000, Some 3600000] \<and>
   stats_id_seq stats_db_mixed = 3 \<and>
   price_ts stats_env_example = [3600000, 7200000] \<and>
   currentStats stats_env_example stats_db_mixed ''car'' ''home'' =
     createNewStats stats_env_example stats_db_mixed ''car'' ''home'' \<and>
   stats_id (fst (currentStats stats_env_example stats_db_mixed ''car'' ''home'')) = 3 \<and>
   DBCurrentStats.price_list_ts (fst (currentStats stats_env_example stats_db_mixed ''car'' ''home'')) =
     Some 7200000 \<and>
   currentStats stats_env_example
     (snd (currentStats stats_env_example stats_db_mixed ''car'' ''home'')) ''car'' ''home'' =
     currentStats stats_env_example stats_db_mixed ''car'' ''home'' \<and>
   currentStats stats_env_example stats_db_mixed ''bus'' ''home'' =
     createNewStats stats_env_example stats_db_mixed ''bus'' ''home'' \<and>
   stats_id (fst (currentStats (stats_env_example\<lparr>price_ts := []\<rparr>)
      (snd (currentStats (stats_env_example\<lparr>price_ts := []\<rparr>) stats_db_mixed ''car'' ''home''))
      ''car'' ''home'')) = 4"
proof -
  have q: "\<forall>r \<in> set (current_stats stats_db_mixed). stats_id r < stats_id_seq stats_db_mixed"
    by (simp add: stats_db_mixed_def stale_row_def)
  have m: "map stats_id (current_stats stats_db_mixed) = [1, 2]"
    "map DBCurrentStats.price_list_ts (current_stats stats_db_mixed) = [Some 7200000, Some 3600000]"
    "stats_id_seq stats_db_mixed = 3"
    "price_ts stats_env_example = [3600000, 7200000]"
    by (simp_all add: stats_db_mixed_def stale_row_def stats_env_example_def)
  have s: "stale_row \<in> set (current_stats stats_db_mixed) \<and>
      DBCurrentStats.vehicle_uuid stale_row = ''car'' \<and>
      DBCurrentStats.location_uuid stale_row = ''home'' \<and>
      (\<forall>r \<in> set (current_stats stats_db_mixed).
         DBCurrentStats.vehicle_uuid r = ''car'' \<and> DBCurrentStats.location_uuid r = ''home'' \<and>
         r \<noteq> stale_row \<longrightarrow> stats_id r < stats_id stale_row)"
    by (simp add: stats_db_mixed_def stale_row_def)
  have n: "\<forall>r \<in> set (current_stats stats_db_mixed).
      \<not> (DBCurrentStats.vehicle_uuid r = ''bus'' \<and> DBCurrentStats.location_uuid r = ''home'')"
    by (simp add: stats_db_mixed_def stale_row_def)
  have f: "\<not> (price_ts stats_env_example \<noteq> [] \<and>
      DBCurrentStats.price_list_ts stale_row = Some (Max (set (price_ts stats_env_example))))"
    by (simp add: stats_env_example_def stale_row_def)
  have p: "price_ts stats_env_example \<noteq> []" "Max (set (price_ts stats_env_example)) = 7200000"
    by (simp_all add: stats_env_example_def)
  have e: "price_ts (stats_env_example\<lparr>price_ts := []\<rparr>) = []" by simp
  have i: "stats_id (fst (createNewStats stats_env_example stats_db_mixed ''car'' ''home'')) = 3"
    by (simp add: createNewStats_def Let_def stats_db_mixed_def stale_row_def)
  note a = currentStats_twice [OF q, where st = stale_row and vehicle = "''car''"
      and loc = "''home''" and env = stats_env_example]
  note b = currentStats_twice [OF q, where st = stale_row and vehicle = "''bus''"
      and loc = "''home''" and env = stats_env_example]
  note c = currentStats_twice [OF q, where st = stale_row and vehicle = "''car''"
      and loc = "''home''" and env = "stats_env_example\<lparr>price_ts := []\<rparr>"]
  from a s f have 1: "currentStats stats_env_example stats_db_mixed ''car'' ''home'' =
     createNewStats stats_env_example stats_db_mixed ''car'' ''home''" by simp
  from a p have 2: "currentStats stats_env_example
     (snd (currentStats stats_env_example stats_db_mixed ''car'' ''home'')) ''car'' ''home'' =
     currentStats stats_env_example stats_db_mixed ''car'' ''home''"
    "DBCurrentStats.price_list_ts (fst (currentStats stats_env_example stats_db_mixed ''car'' ''home'')) =
     Some 7200000" by simp_all
  from b n have 3: "currentStats stats_env_example stats_db_mixed ''bus'' ''home'' =
     createNewStats stats_env_example stats_db_mixed ''bus'' ''home''" by blast
  from c e have "stats_id (fst (currentStats (stats_env_example\<lparr>price_ts := []\<rparr>)
      (snd (currentStats (stats_env_example\<lparr>price_ts := []\<rparr>) stats_db_mixed ''car'' ''home''))
      ''car'' ''home'')) = stats_id_seq stats_db_mixed + 1" by blast
  with m(3) have 4: "stats_id (fst (currentStats (stats_env_example\<lparr>price_ts := []\<rparr>)
      (snd (currentStats (stats_env_example\<lparr>price_ts := []\<rparr>) stats_db_mixed ''car'' ''home''))
      ''car'' ''home'')) = 4" by simp
  from m 1 2 3 4 i show ?thesis by simp
qed

theorem currentStats_without_prices:
  "stats_id (fst (currentStats (stats_env_example\<lparr>price_ts := []\<rparr>) stats_db_example
      ''car'' ''home'')) = 2 \<and>
   stats_id (fst (currentStats (stats_env_example\<lparr>price_ts := []\<rparr>)
      (snd (currentStats (stats_env_example\<lparr>price_ts := []\<rparr>) stats_db_example
              ''car'' ''home''))
      ''car'' ''home'')) = 3 \<and>
   fst (currentStats (stats_env_example\<lparr>price_ts := []\<rparr>)
      (snd (currentStats (stats_env_example\<lparr>price_ts := []\<rparr>) stats_db_example
              ''car'' ''home''))
      ''car'' ''home'') \<noteq>
   fst (currentStats (stats_env_example\<lparr>price_ts := []\<rparr>) stats_db_example ''car'' ''home'')"
  by code_simp

lemma sim_loop_from:
  "sim_at env t hm i = Some s \<Longrightarrow> simulate env t hm = sim_loop env t hm i s"
proof (induction i arbitrary: s)
  case 0
  then show ?case by (simp add: simulate_def)
next
  case (Suc i)
  from Suc.prems obtain s0 where s0: "sim_at env t hm i = Some s0"
    and lt: "i < length hm" and st: "sim_step env t hm i s0 = Some s"
    by (auto split: option.splits if_splits)
  from Suc.IH [OF s0] have "simulate env t hm = sim_loop env t hm i s0" .
  also have "\<dots> = sim_loop env t hm (i + 1) s"
    using lt st by (simp add: sim_loop.simps [of env t hm i s0])
  finally show ?case by simp
qed

text \<open>
  C4, as amended: when the simulation for a candidate \<open>t\<close> arrives at an entry \<open>i\<close> whose
  predecessor is onsite, the carried level is decremented by the predecessor's
  \<open>needed\<close>; if the decremented level is below both the entry's own \<open>start_level\<close> and
  \<open>minimum_charge / 2\<close>, the simulation ends with \<open>lvl = -1\<close> and \<open>t\<close> is not selected
  (for a \<open>minimum_charge\<close> that is not negative); otherwise the entry's hours are
  charged from the decremented level.
\<close>

theorem simulation_fails_below_half_minimum:
  assumes "0 < i" and "i < length hm" and "\<not> offsite (hm ! (i - 1))"
    and "sim_at env t hm i = Some s"
    and "0 \<le> stats_env.minimum_charge env"
  shows "(lvl s - num_of_null (needed (hm ! (i - 1)))
             < Num (of_int (HistoryMap.start_level (hm ! i))) \<and>
          lvl s - num_of_null (needed (hm ! (i - 1)))
             < js_div (Num (of_int (stats_env.minimum_charge env))) (Num 2) \<longrightarrow>
            lvl (simulate env t hm) = Num (- 1) \<and> try_threshold env hm t best = best) \<and>
         (\<not> (lvl s - num_of_null (needed (hm ! (i - 1)))
               < Num (of_int (HistoryMap.start_level (hm ! i))) \<and>
             lvl s - num_of_null (needed (hm ! (i - 1)))
               < js_div (Num (of_int (stats_env.minimum_charge env))) (Num 2)) \<longrightarrow>
            sim_at env t hm (Suc i) =
              Some (charge_hours env t (neededLevel_of env (hm ! i)) False (hours (hm ! i))
                      (s\<lparr>lvl := lvl s - num_of_null (needed (hm ! (i - 1)))\<rparr>)))"
proof (intro conjI impI)
  assume low: "lvl s - num_of_null (needed (hm ! (i - 1)))
             < Num (of_int (HistoryMap.start_level (hm ! i))) \<and>
          lvl s - num_of_null (needed (hm ! (i - 1)))
             < js_div (Num (of_int (stats_env.minimum_charge env))) (Num 2)"
  with assms(1,3) have "sim_step env t hm i s = None"
    by (simp add: sim_step_def Let_def)
  with assms(2) have "sim_loop env t hm i s = s\<lparr>lvl := Num (- 1)\<rparr>"
    by (simp add: sim_loop.simps [of env t hm i s])
  with sim_loop_from [OF assms(4)] show l: "lvl (simulate env t hm) = Num (- 1)" by simp
  from assms(5) have "\<not> Num (of_int (stats_env.minimum_charge env)) < (Num (- 1) :: rat jsnum)"
    by simp
  with l show "try_threshold env hm t best = best"
    by (simp add: try_threshold_def Let_def)
next
  assume "\<not> (lvl s - num_of_null (needed (hm ! (i - 1)))
               < Num (of_int (HistoryMap.start_level (hm ! i))) \<and>
             lvl s - num_of_null (needed (hm ! (i - 1)))
               < js_div (Num (of_int (stats_env.minimum_charge env))) (Num 2))"
  with assms(1,2,3,4) show "sim_at env t hm (Suc i) =
              Some (charge_hours env t (neededLevel_of env (hm ! i)) False (hours (hm ! i))
                      (s\<lparr>lvl := lvl s - num_of_null (needed (hm ! (i - 1)))\<rparr>))"
    by (auto simp: sim_step_def Let_def)
qed

theorem simulation_fails_below_half_minimum_witness:
  "(0::nat) < 1 \<and> 1 < length historyMap_failing \<and> \<not> offsite (historyMap_failing ! (1 - 1)) \<and>
   sim_at stats_env_failing (1 / 2) historyMap_failing 1 =
     Some \<lparr>totalCharged = Num 10, totalCost = Num (5 / 3), lvl = Num 90\<rparr> \<and>
   0 \<le> stats_env.minimum_charge stats_env_failing \<and>
   lvl (simulate stats_env_failing (1 / 2) historyMap_failing) = Num (- 1) \<and>
   try_threshold stats_env_failing historyMap_failing (1 / 2) (PosInf, 1) = (PosInf, 1)"
proof -
  have a: "(0::nat) < 1" by simp
  have b: "1 < length historyMap_failing" by code_simp
  have c: "\<not> offsite (historyMap_failing ! (1 - 1))" by code_simp
  have d: "sim_at stats_env_failing (1 / 2) historyMap_failing 1 =
     Some \<lparr>totalCharged = Num 10, totalCost = Num (5 / 3), lvl = Num 90\<rparr>"
    by code_simp
  have e: "0 \<le> stats_env.minimum_charge stats_env_failing" by code_simp
  have f: "lvl \<lparr>totalCharged = Num 10, totalCost = Num (5 / 3), lvl = Num 90\<rparr>
             - num_of_null (needed (historyMap_failing ! (1 - 1)))
             < Num (of_int (HistoryMap.start_level (historyMap_failing ! 1))) \<and>
          lvl \<lparr>totalCharged = Num 10, totalCost = Num (5 / 3), lvl = Num 90\<rparr>
             - num_of_null (needed (historyMap_failing ! (1 - 1)))
             < js_div (Num (of_int (stats_env.minimum_charge stats_env_failing))) (Num 2)"
    by code_simp
  from simulation_fails_below_half_minimum [OF a b c d e, of "(PosInf, 1)"] f
  have "lvl (simulate stats_env_failing (1 / 2) historyMap_failing) = Num (- 1) \<and>
      try_threshold stats_env_failing historyMap_failing (1 / 2) (PosInf, 1) = (PosInf, 1)"
    by blast
  with a b c d e show ?thesis by blast
qed

theorem simulation_passes_below_half_minimum:
  "\<not> offsite (historyMap_example ! 0) \<and>
   sim_at stats_env_example (1 / 2) historyMap_example 1 =
     Some \<lparr>totalCharged = Num 10, totalCost = Num (5 / 3), lvl = Num 90\<rparr> \<and>
   Num 90 - num_of_null (needed (historyMap_example ! 0)) = Num 20 \<and>
   (Num 20 :: rat jsnum)
     < js_div (Num (of_int (stats_env.minimum_charge stats_env_example))) (Num 2) \<and>
   lvl (simulate stats_env_example (1 / 2) historyMap_example) = Num 80 \<and>
   try_threshold stats_env_example historyMap_example (1 / 2) (PosInf, 1) = (Num (1 / 6), 1 / 2) \<and>
   select_threshold stats_env_example ''home'' = 1 / 2"
  by code_simp

section \<open>Trips\<close>

lemma stop_trip_known:
  assumes "\<not> driving data" and "currentLocationUUID \<noteq> None"
    and "trip_rows db tid = Some trp"
  shows "snd (stop_trip db tid trp currentLocationUUID data) \<and>
     vehicle_trip_id (fst (stop_trip db tid trp currentLocationUUID data)) \<noteq> Some tid \<and>
     (case trip_rows (fst (stop_trip db tid trp currentLocationUUID data)) tid of
        None \<Rightarrow> True | Some row \<Rightarrow> 1000 \<le> distance row)"
  using assms by (auto simp: stop_trip_def Let_def)

lemma update_trip_record_row:
  assumes "update_trip_record db tid trp cur data now_ts = Inr (db2, trp1)"
    and "trip_rows db tid = Some trp"
  shows "trip_rows db2 tid = Some trp1"
  using assms by (auto simp: update_trip_record_def Let_def split: if_splits option.splits)

lemma open_trip_row:
  assumes "open_trip db vehicle cur data now_ts = Inr (db0, tid, trp)"
  shows "trip_rows db0 tid = Some trp \<and>
     tid = (case DBVehicle.trip_id vehicle of Some t \<Rightarrow> t | None \<Rightarrow> trip_id_seq db)"
  using assms by (auto simp: open_trip_def Let_def split: option.splits)

text \<open>
  C6, as amended: when the trip block ends a trip at a known location (the vehicle does
  not drive and \<open>currentLocationUUID\<close> is not null), the trip is closed, a replan is
  requested, and the trip's row is either deleted or has a distance of at least
  \<open>1000\<close> meters. (A trip that ends by connecting away from any known location keeps
  its row whatever its distance.)
\<close>

theorem short_trip_deleted_at_known_location:
  assumes "update_trip db vehicle currentLocationUUID data now_ts = Inr (db1, doPricePlan)"
    and "\<not> driving data" and "currentLocationUUID \<noteq> None"
    and "DBVehicle.location_uuid vehicle \<noteq> currentLocationUUID \<or>
         DBVehicle.trip_id vehicle \<noteq> None"
  shows "doPricePlan \<and>
     vehicle_trip_id db1 \<noteq>
       Some (case DBVehicle.trip_id vehicle of Some tid \<Rightarrow> tid | None \<Rightarrow> trip_id_seq db) \<and>
     (case trip_rows db1
             (case DBVehicle.trip_id vehicle of Some tid \<Rightarrow> tid | None \<Rightarrow> trip_id_seq db) of
        None \<Rightarrow> True
      | Some row \<Rightarrow> 1000 \<le> distance row)"
proof -
  from assms(1,4) obtain db0 tid trp db2 trp1 where
    opn: "open_trip db vehicle currentLocationUUID data now_ts = Inr (db0, tid, trp)"
    and upd: "update_trip_record db0 tid trp currentLocationUUID data now_ts = Inr (db2, trp1)"
    and res: "stop_trip db2 tid trp1 currentLocationUUID data = (db1, doPricePlan)"
    by (auto simp: update_trip_def split: sum.splits)
  from open_trip_row [OF opn] have row: "trip_rows db0 tid = Some trp"
    and tid: "tid = (case DBVehicle.trip_id vehicle of Some t \<Rightarrow> t | None \<Rightarrow> trip_id_seq db)"
    by blast+
  from update_trip_record_row [OF upd row] have "trip_rows db2 tid = Some trp1" .
  from stop_trip_known [OF assms(2,3) this] res show ?thesis
    unfolding tid [symmetric] by simp
qed

theorem short_trip_deleted_at_known_location_witness:
  "\<not> driving telemetry_example \<and> Some ''home'' \<noteq> (None :: string option) \<and>
   DBVehicle.trip_id travelling_vehicle = Some 7 \<and>
   (case update_trip trip_db_example travelling_vehicle (Some ''home'') telemetry_example
           360600000 of
      Inl e \<Rightarrow> False
    | Inr (db1, doPricePlan) \<Rightarrow>
        doPricePlan \<and> vehicle_trip_id db1 = None \<and> trip_rows db1 7 = None)"
proof -
  have d: "\<not> driving telemetry_example" by (simp add: telemetry_example_def)
  have k: "Some ''home'' \<noteq> (None :: string option)" by simp
  have b: "DBVehicle.location_uuid travelling_vehicle \<noteq> Some ''home'' \<or>
    DBVehicle.trip_id travelling_vehicle \<noteq> None"
    by (simp add: travelling_vehicle_def)
  have t: "DBVehicle.trip_id travelling_vehicle = Some 7" by (simp add: travelling_vehicle_def)
  have e: "(case update_trip trip_db_example travelling_vehicle (Some ''home'') telemetry_example
           360600000 of
      Inl e \<Rightarrow> False
    | Inr (db1, doPricePlan) \<Rightarrow> vehicle_trip_id db1 = None \<and> trip_rows db1 7 = None)"
    by code_simp
  then obtain db1 doPricePlan where
    r: "update_trip trip_db_example travelling_vehicle (Some ''home'') telemetry_example
           360600000 = Inr (db1, doPricePlan)"
    and v: "vehicle_trip_id db1 = None" "trip_rows db1 7 = None"
    by (auto split: sum.splits)
  from short_trip_deleted_at_known_location [OF r d k b] have "doPricePlan" by simp
  with d k t r v show ?thesis by simp
qed

theorem short_trip_kept_when_connected:
  "(case update_trip trip_db_example travelling_vehicle None telemetry_example 360600000 of
      Inl e \<Rightarrow> False
    | Inr (db1, doPricePlan) \<Rightarrow>
        doPricePlan \<and> vehicle_trip_id db1 = None \<and>
        map_option distance (trip_rows db1 7) = Some 500)"
  by code_simp

end
